theory Spec2Isabelle
  imports Complex_Main "HOL-Library.Product_Lexorder"
begin

section \<open>JavaScript values used by the front end\<close>

subsection \<open>Strings\<close>

text \<open>
  A JavaScript string is a sequence of UTF-16 code units; \<open>length\<close>, \<open>slice\<close>, \<open>trim\<close> and
  regular expressions without the \<open>u\<close> flag all work on code units. A code unit is modelled
  by its number, and \<open>js\<close> turns an ASCII literal into such a sequence.
\<close>

type_synonym jsstring = "nat list"

definition js :: "string \<Rightarrow> jsstring" where
  "js s = map of_char s"

text \<open>
  \<open>String.prototype.trim\<close> and the regular-expression class \<open>\s\<close> remove the same code
  units: WhiteSpace (TAB, VT, FF, SP, NBSP, ZWNBSP and the category Zs) and LineTerminator
  (LF, CR, LS, PS).
\<close>

definition isWhiteSpace :: "nat \<Rightarrow> bool" where
  "isWhiteSpace c \<longleftrightarrow>
     (9 \<le> c \<and> c \<le> 13) \<or> c = 32 \<or> c = 160 \<or> c = 5760 \<or> (8192 \<le> c \<and> c \<le> 8202)
     \<or> c = 8232 \<or> c = 8233 \<or> c = 8239 \<or> c = 8287 \<or> c = 12288 \<or> c = 65279"

definition trim :: "jsstring \<Rightarrow> jsstring" where
  "trim s = rev (dropWhile isWhiteSpace (rev (dropWhile isWhiteSpace s)))"

text \<open>The decimal rendering of a non-negative integer, as a template literal produces it.\<close>

fun show_nat :: "nat \<Rightarrow> jsstring" where
  "show_nat n = (if n < 10 then [48 + n] else show_nat (n div 10) @ [48 + n mod 10])"

declare show_nat.simps [simp del]

subsection \<open>Thrown values\<close>

text \<open>
  What a \<open>catch\<close> clause receives: an \<open>Error\<close> object with its message, or any other value.
  The handlers of the page test \<open>err instanceof Error\<close> and use a fixed text otherwise.
\<close>

datatype thrown = Error jsstring | NonError

definition message :: "jsstring \<Rightarrow> thrown \<Rightarrow> jsstring" where
  "message dflt t = (case t of Error m \<Rightarrow> m | NonError \<Rightarrow> dflt)"

subsection \<open>encodeURIComponent\<close>

definition uriUnreserved :: "nat \<Rightarrow> bool" where
  "uriUnreserved c \<longleftrightarrow>
     (65 \<le> c \<and> c \<le> 90) \<or> (97 \<le> c \<and> c \<le> 122) \<or> (48 \<le> c \<and> c \<le> 57)
     \<or> c = 45 \<or> c = 95 \<or> c = 46 \<or> c = 33 \<or> c = 126 \<or> c = 42 \<or> c = 39 \<or> c = 40 \<or> c = 41"

definition hexDigit :: "nat \<Rightarrow> nat" where
  "hexDigit d = (if d < 10 then 48 + d else 55 + d)"

definition percent :: "nat \<Rightarrow> jsstring" where
  "percent b = [37, hexDigit (b div 16), hexDigit (b mod 16)]"

definition utf8 :: "nat \<Rightarrow> nat list" where
  "utf8 cp =
     (if cp < 128 then [cp]
      else if cp < 2048 then [192 + cp div 64, 128 + cp mod 64]
      else if cp < 65536 then [224 + cp div 4096, 128 + (cp div 64) mod 64, 128 + cp mod 64]
      else [240 + cp div 262144, 128 + (cp div 4096) mod 64,
            128 + (cp div 64) mod 64, 128 + cp mod 64])"

definition URIError :: thrown where
  "URIError = Error (js ''URI malformed'')"

text \<open>
  Unreserved code units are kept; every other code point is written as the percent-escaped
  bytes of its UTF-8 form. A surrogate without its partner makes the call throw.
\<close>

fun encodeURIComponent :: "jsstring \<Rightarrow> thrown + jsstring" where
  "encodeURIComponent [] = Inr []"
| "encodeURIComponent (c # cs) =
     (if uriUnreserved c then
        (case encodeURIComponent cs of Inl t \<Rightarrow> Inl t | Inr r \<Rightarrow> Inr (c # r))
      else if 56320 \<le> c \<and> c \<le> 57343 then Inl URIError
      else if 55296 \<le> c \<and> c \<le> 56319 then
        (case cs of
           [] \<Rightarrow> Inl URIError
         | d # ds \<Rightarrow>
             if 56320 \<le> d \<and> d \<le> 57343 then
               (case encodeURIComponent ds of
                  Inl t \<Rightarrow> Inl t
                | Inr r \<Rightarrow>
                    Inr (concat (map percent
                           (utf8 (65536 + (c - 55296) * 1024 + (d - 56320)))) @ r))
             else Inl URIError)
      else
        (case encodeURIComponent cs of
           Inl t \<Rightarrow> Inl t
         | Inr r \<Rightarrow> Inr (concat (map percent (utf8 c)) @ r)))"

subsection \<open>JSON values and fetch\<close>

text \<open>
  The value \<open>Response.json()\<close> resolves to. An object is the list of its properties, each
  key once. Numbers are only ever tested for truthiness by the page.
\<close>

datatype json =
    JNull
  | JBool bool
  | JNum rat
  | JStr jsstring
  | JArr "json list"
  | JObj "(jsstring \<times> json) list"

definition truthy :: "json \<Rightarrow> bool" where
  "truthy v =
     (case v of
        JNull \<Rightarrow> False
      | JBool b \<Rightarrow> b
      | JNum n \<Rightarrow> n \<noteq> 0
      | JStr s \<Rightarrow> s \<noteq> []
      | JArr _ \<Rightarrow> True
      | JObj _ \<Rightarrow> True)"

text \<open>
  Reading the property \<open>name\<close> of a parsed body, for a name that no string, number, boolean
  or array has: \<open>null.name\<close> throws a TypeError, a missing property is \<open>undefined\<close> (\<open>None\<close>).
\<close>

definition get_prop :: "json \<Rightarrow> jsstring \<Rightarrow> thrown + json option" where
  "get_prop j name =
     (case j of
        JNull \<Rightarrow>
          Inl (Error (js ''Cannot read properties of null (reading '' @ [39] @ name @ [39]
                      @ js '')''))
      | JObj kvs \<Rightarrow> Inr (map_of kvs name)
      | _ \<Rightarrow> Inr None)"

text \<open>
  The outcome of one \<open>fetch\<close>: the promise rejects, or it resolves to a response with a
  status code whose \<open>json()\<close> either throws or yields the parsed body.
\<close>

datatype 'b fetch_outcome = Rejected thrown | Resolved nat "thrown + 'b"

definition ok :: "nat \<Rightarrow> bool" where
  "ok status \<longleftrightarrow> 200 \<le> status \<and> status \<le> 299"

section \<open>QAPage.tsx\<close>

text \<open>
  The state of the component. \<open>response\<close> holds the parsed body as it came (\<open>JNull\<close> is
  \<open>null\<close>).
\<close>

record QAState =
  question :: jsstring
  response :: json
  loading :: bool
  error :: "jsstring option"

definition initialQAState :: QAState where
  "initialQAState = \<lparr>question = [], response = JNull, loading = False, error = None\<rparr>"

text \<open>
  A handler is modelled by the state it leaves once its promise has settled, together with
  the URLs it fetched, in order. \<open>net\<close> is the outcome the network gives for a URL.
\<close>

definition handleSubmit ::
  "(jsstring \<Rightarrow> json fetch_outcome) \<Rightarrow> QAState \<Rightarrow> jsstring list \<times> QAState" where
  "handleSubmit net s =
     (if trim (question s) = [] then ([], s)
      else
        let s1 = s\<lparr>loading := True, error := None, response := JNull\<rparr>;
            failed = (\<lambda>t. s1\<lparr>error := Some (message (js ''Failed to get answer'') t),
                               loading := False\<rparr>)
        in case encodeURIComponent (question s) of
             Inl t \<Rightarrow> ([], failed t)
           | Inr q \<Rightarrow>
               let url = js ''/qa?q='' @ q @ js ''&k=10''
               in (case net url of
                     Rejected t \<Rightarrow> ([url], failed t)
                   | Resolved status body \<Rightarrow>
                       if \<not> ok status then
                         ([url], failed (Error (js ''API error: '' @ show_nat status)))
                       else
                         (case body of
                            Inl t \<Rightarrow> ([url], failed t)
                          | Inr data \<Rightarrow>
                              ([url], s1\<lparr>response := data, loading := False\<rparr>))))"

section \<open>SearchPage.tsx\<close>

record SearchMeta =
  paper_id :: jsstring
  title :: "jsstring option"
  "section" :: "jsstring option"
  chunk_id :: "int option"

text \<open>
  The interface declares \<open>title\<close> and \<open>meta\<close> as always present; \<open>renderSnippet\<close> guards
  against their absence (\<open>r.meta?.title ?? "Untitled"\<close>), so both are optional here.
\<close>

record SearchResult =
  score :: rat
  meta :: "SearchMeta option"
  snippet :: "jsstring option"

subsection \<open>highlightText\<close>

definition mark :: "jsstring \<Rightarrow> jsstring" where
  "mark s = js ''<mark>'' @ s @ js ''</mark>''"

text \<open>\<open>s.split(/\s+/)\<close>: the pieces between maximal runs of white space.\<close>

function split_ws :: "jsstring \<Rightarrow> jsstring \<Rightarrow> jsstring list" where
  "split_ws cur [] = [rev cur]"
| "split_ws cur (c # cs) =
     (if isWhiteSpace c then rev cur # split_ws [] (dropWhile isWhiteSpace cs)
      else split_ws (c # cur) cs)"
  by pat_completeness auto
termination
  by (relation "measure (\<lambda>(cur, s). length s)")
     (auto simp: length_dropWhile_le less_Suc_eq_le)

text \<open>\<open>Array.from(new Set(xs))\<close>: the first occurrence of every element, in order.\<close>

definition uniq :: "'a list \<Rightarrow> 'a list" where
  "uniq xs = rev (remdups (rev xs))"

text \<open>
  Every token is escaped before it enters the regular expression, so it matches literally,
  up to the case folding of the \<open>i\<close> flag: two code units match when \<open>canon\<close> (the
  Canonicalize operation of the regular-expression semantics) maps them to the same unit.
\<close>

definition matches_at :: "(nat \<Rightarrow> nat) \<Rightarrow> jsstring \<Rightarrow> jsstring \<Rightarrow> bool" where
  "matches_at canon tok text \<longleftrightarrow>
     length tok \<le> length text \<and> map canon (take (length tok) text) = map canon tok"

text \<open>
  \<open>text.replace(re, "<mark>$1</mark>")\<close> for the global alternation of the tokens: at every
  position the first token that matches wins; an empty match is marked and the scan moves
  one code unit on.
\<close>

function replace_tokens :: "(nat \<Rightarrow> nat) \<Rightarrow> jsstring list \<Rightarrow> jsstring \<Rightarrow> jsstring" where
  "replace_tokens canon toks text =
     (case find (\<lambda>t. matches_at canon t text) toks of
        None \<Rightarrow> (case text of [] \<Rightarrow> [] | c # cs \<Rightarrow> c # replace_tokens canon toks cs)
      | Some t \<Rightarrow>
          if t = [] then
            mark [] @ (case text of [] \<Rightarrow> [] | c # cs \<Rightarrow> c # replace_tokens canon toks cs)
          else
            mark (take (length t) text) @ replace_tokens canon toks (drop (length t) text))"
  by pat_completeness auto
termination
  by (relation "measure (\<lambda>(canon, toks, text). length text)")
     (auto simp: find_Some_iff matches_at_def intro!: diff_less)

declare replace_tokens.simps [simp del]

text \<open>
  \<open>toLowerCase\<close> and \<open>canon\<close> depend on the Unicode case tables of the engine and are
  parameters of the model.
\<close>

definition highlightText ::
  "(jsstring \<Rightarrow> jsstring) \<Rightarrow> (nat \<Rightarrow> nat) \<Rightarrow> jsstring \<Rightarrow> jsstring \<Rightarrow> jsstring" where
  "highlightText toLowerCase canon text query =
     (if text = [] \<or> query = [] then text
      else
        let tokens = uniq (split_ws [] (toLowerCase (trim query)))
        in if length tokens = 0 then text else replace_tokens canon tokens text)"

subsection \<open>getPaperLink and the PMC pattern\<close>

definition is_digit :: "nat \<Rightarrow> bool" where
  "is_digit c \<longleftrightarrow> 48 \<le> c \<and> c \<le> 57"

text \<open>
  The pattern \<open>/PMC\d+/i\<close> tried at the start of a string: the three letters in either
  case, then the longest run of ASCII digits, which must not be empty.
\<close>

fun match_here :: "jsstring \<Rightarrow> jsstring option" where
  "match_here (p # m # c # rest) =
     (if (p = 80 \<or> p = 112) \<and> (m = 77 \<or> m = 109) \<and> (c = 67 \<or> c = 99)
         \<and> takeWhile is_digit rest \<noteq> []
      then Some (p # m # c # takeWhile is_digit rest) else None)"
| "match_here _ = None"

text \<open>\<open>s.match(/PMC\d+/i)\<close>: the match at the leftmost position that has one.\<close>

fun match_PMC :: "jsstring \<Rightarrow> jsstring option" where
  "match_PMC [] = None"
| "match_PMC (x # xs) =
     (case match_here (x # xs) of Some m \<Rightarrow> Some m | None \<Rightarrow> match_PMC xs)"

definition getPaperLink :: "jsstring option \<Rightarrow> jsstring" where
  "getPaperLink pid =
     (case pid of
        None \<Rightarrow> js ''#''
      | Some p \<Rightarrow>
          if p = [] then js ''#''
          else (case match_PMC p of
                  Some m \<Rightarrow> js ''https://www.ncbi.nlm.nih.gov/pmc/articles/'' @ m @ js ''/''
                | None \<Rightarrow> js ''#''))"

subsection \<open>renderSnippet\<close>

definition renderSnippet :: "SearchResult \<Rightarrow> jsstring" where
  "renderSnippet r =
     (if (case snippet r of None \<Rightarrow> False | Some sn \<Rightarrow> sn \<noteq> [] \<and> length (trim sn) > 0) then
        (let s = trim (the (snippet r))
         in if length s > 400 then take 400 s @ js ''...'' else s)
      else
        (let title = (case meta r of
                        None \<Rightarrow> js ''Untitled''
                      | Some m \<Rightarrow> (case title m of None \<Rightarrow> js ''Untitled'' | Some t \<Rightarrow> t));
             section = (case meta r of
                          None \<Rightarrow> []
                        | Some m \<Rightarrow>
                            (case section m of
                               None \<Rightarrow> []
                             | Some sec \<Rightarrow> if sec = [] then [] else js '' ('' @ sec @ js '')''))
         in title @ section))"

subsection \<open>The component state and its handlers\<close>

text \<open>
  \<open>selectedPaper\<close> and \<open>paperSummary\<close> hold whatever the parsed body gave (\<open>JNull\<close> is
  \<open>null\<close>); the component types the summary as \<open>string | null\<close>.
\<close>

record SearchPageState =
  query :: jsstring
  results :: "SearchResult list"
  loading :: bool
  error :: "jsstring option"
  totalCount :: "nat option"
  selectedPaper :: json
  paperLoading :: bool
  paperError :: "jsstring option"
  showModal :: bool
  paperSummary :: json
  summaryLoading :: bool
  summaryError :: "jsstring option"
  page :: nat

text \<open>
  The body of a search response is taken to have the documented form
  \<open>{ query, k, results: [...] }\<close>; its \<open>results\<close> property may be missing (\<open>None\<close>).
\<close>

definition handleSearch ::
  "(jsstring \<Rightarrow> SearchResult list option fetch_outcome) \<Rightarrow> SearchPageState
     \<Rightarrow> jsstring list \<times> SearchPageState" where
  "handleSearch net s =
     (if trim (query s) = [] then ([], s)
      else
        let s1 = s\<lparr>loading := True, error := None, page := 1, totalCount := None\<rparr>;
            failed = (\<lambda>t. s1\<lparr>error := Some (message (js ''Failed to fetch results'') t),
                               results := [], totalCount := Some 0, loading := False\<rparr>)
        in case encodeURIComponent (query s) of
             Inl t \<Rightarrow> ([], failed t)
           | Inr q \<Rightarrow>
               let url = js ''http://127.0.0.1:8000/search?q='' @ q @ js ''&k=50''
               in (case net url of
                     Rejected t \<Rightarrow> ([url], failed t)
                   | Resolved status body \<Rightarrow>
                       if \<not> ok status then
                         ([url], failed (Error (js ''API error: '' @ show_nat status)))
                       else
                         (case body of
                            Inl t \<Rightarrow> ([url], failed t)
                          | Inr data \<Rightarrow>
                              let rs = (case data of Some xs \<Rightarrow> xs | None \<Rightarrow> [])
                              in ([url], s1\<lparr>results := rs, totalCount := Some (length rs),
                                             loading := False\<rparr>))))"

definition cleanId :: "jsstring \<Rightarrow> jsstring" where
  "cleanId paperId = (case match_PMC paperId of Some m \<Rightarrow> m | None \<Rightarrow> paperId)"

text \<open>The first \<open>try\<close> block of \<open>openPaper\<close>: the paper itself.\<close>

definition openPaper_paper ::
  "(jsstring \<Rightarrow> json fetch_outcome) \<Rightarrow> jsstring \<Rightarrow> SearchPageState
     \<Rightarrow> jsstring list \<times> SearchPageState" where
  "openPaper_paper net cid s =
     (let failed = (\<lambda>t. s\<lparr>paperError := Some (message (js ''Failed to load paper'') t),
                              paperLoading := False\<rparr>)
      in case encodeURIComponent cid of
           Inl t \<Rightarrow> ([], failed t)
         | Inr e \<Rightarrow>
             let url = js ''http://127.0.0.1:8000/paper/'' @ e
             in (case net url of
                   Rejected t \<Rightarrow> ([url], failed t)
                 | Resolved status body \<Rightarrow>
                     if \<not> ok status then
                       ([url], failed (Error (if status = 404
                                              then js ''Paper not found on server''
                                              else js ''Paper API error: '' @ show_nat status)))
                     else
                       (case body of
                          Inl t \<Rightarrow> ([url], failed t)
                        | Inr j \<Rightarrow> ([url], s\<lparr>selectedPaper := j, paperLoading := False\<rparr>))))"

text \<open>The second \<open>try\<close> block: \<open>setPaperSummary(j.summary || null)\<close>.\<close>

definition openPaper_summary ::
  "(jsstring \<Rightarrow> json fetch_outcome) \<Rightarrow> jsstring \<Rightarrow> SearchPageState
     \<Rightarrow> jsstring list \<times> SearchPageState" where
  "openPaper_summary net cid s =
     (let failed = (\<lambda>t. s\<lparr>summaryError := Some (message (js ''Failed to load summary'') t),
                              paperSummary := JNull, summaryLoading := False\<rparr>)
      in case encodeURIComponent cid of
           Inl t \<Rightarrow> ([], failed t)
         | Inr e \<Rightarrow>
             let url = js ''http://127.0.0.1:8000/paper_summarized/'' @ e
             in (case net url of
                   Rejected t \<Rightarrow> ([url], failed t)
                 | Resolved status body \<Rightarrow>
                     if \<not> ok status then
                       ([url], failed (Error (if status = 404
                                              then js ''Summary not found''
                                              else js ''Summary API error: '' @ show_nat status)))
                     else
                       (case body of
                          Inl t \<Rightarrow> ([url], failed t)
                        | Inr j \<Rightarrow>
                            (case get_prop j (js ''summary'') of
                               Inl t \<Rightarrow> ([url], failed t)
                             | Inr v \<Rightarrow>
                                 ([url],
                                  s\<lparr>paperSummary :=
                                       (case v of
                                          None \<Rightarrow> JNull
                                        | Some x \<Rightarrow> if truthy x then x else JNull),
                                     summaryLoading := False\<rparr>)))))"

definition openPaper ::
  "(jsstring \<Rightarrow> json fetch_outcome) \<Rightarrow> jsstring \<Rightarrow> SearchPageState
     \<Rightarrow> jsstring list \<times> SearchPageState" where
  "openPaper net paperId s =
     (let s0 = s\<lparr>paperLoading := True, paperError := None, selectedPaper := JNull,
                  showModal := True, paperSummary := JNull, summaryLoading := True,
                  summaryError := None\<rparr>;
          cid = cleanId paperId;
          (reqs1, s1) = openPaper_paper net cid s0;
          (reqs2, s2) = openPaper_summary net cid s1
      in (reqs1 @ reqs2, s2))"

text \<open>The values \<open>useState\<close> gives the component when it mounts.\<close>

definition initialState :: SearchPageState where
  "initialState =
     \<lparr>query = [], results = [], loading = False, error = None, totalCount = None,
      selectedPaper = JNull, paperLoading = False, paperError = None, showModal = False,
      paperSummary = JNull, summaryLoading = False, summaryError = None, page = 1\<rparr>"

subsection \<open>What the specification says about identifiers and summaries\<close>

text \<open>
  Specification, not code: a string that as a whole matches \<open>PMC\d+\<close>, letters in either
  case. The code's \<open>match_PMC\<close> is compared with it.
\<close>

fun matches_PMC_pattern :: "jsstring \<Rightarrow> bool" where
  "matches_PMC_pattern (p # m # c # d # ds) =
     ((p = 80 \<or> p = 112) \<and> (m = 77 \<or> m = 109) \<and> (c = 67 \<or> c = 99)
      \<and> is_digit d \<and> list_all is_digit ds)"
| "matches_PMC_pattern _ = False"

text \<open>
  Specification, not code: the structured summary, an object with exactly the fields
  \<open>intro\<close>, \<open>key_points\<close> (an array of 4), \<open>outro\<close> and \<open>plain_text\<close>.
\<close>

definition is_structured_summary :: "json \<Rightarrow> bool" where
  "is_structured_summary v =
     (case v of
        JObj kvs \<Rightarrow>
          length kvs = 4
          \<and> set (map fst kvs) = {js ''intro'', js ''key_points'', js ''outro'', js ''plain_text''}
          \<and> (case map_of kvs (js ''intro'') of Some (JStr _) \<Rightarrow> True | _ \<Rightarrow> False)
          \<and> (case map_of kvs (js ''key_points'') of
                Some (JArr ks) \<Rightarrow> length ks = 4 | _ \<Rightarrow> False)
          \<and> (case map_of kvs (js ''outro'') of Some (JStr _) \<Rightarrow> True | _ \<Rightarrow> False)
          \<and> (case map_of kvs (js ''plain_text'') of Some (JStr _) \<Rightarrow> True | _ \<Rightarrow> False)
      | _ \<Rightarrow> False)"

subsection \<open>Sample data\<close>

definition sample_result :: SearchResult where
  "sample_result =
     \<lparr>score = 1 / 2,
      meta = Some \<lparr>paper_id = js ''PMC1'', title = Some (js ''Roots in orbit''),
                   section = Some (js ''Abstract''), chunk_id = Some 3\<rparr>,
      snippet = Some (js ''  ab '')\<rparr>"

definition long_result :: SearchResult where
  "long_result = sample_result\<lparr>snippet := Some (replicate 401 120)\<rparr>"

definition structured_body :: json where
  "structured_body =
     JObj [(js ''intro'', JStr (js ''Plants in orbit.'')),
           (js ''key_points'', JArr [JStr (js ''a''), JStr (js ''b''), JStr (js ''c''),
                                     JStr (js ''d'')]),
           (js ''outro'', JStr (js ''More work is needed.'')),
           (js ''plain_text'', JStr (js ''Plants grow in space.''))]"

definition text_body :: json where
  "text_body = JObj [(js ''summary'', JStr (js ''Plants grow.''))]"

definition structured_net :: "jsstring \<Rightarrow> json fetch_outcome" where
  "structured_net url = Resolved 200 (Inr structured_body)"

definition text_net :: "jsstring \<Rightarrow> json fetch_outcome" where
  "text_net url = Resolved 200 (Inr text_body)"

definition missing_net :: "jsstring \<Rightarrow> json fetch_outcome" where
  "missing_net url = Resolved 404 (Inr JNull)"

definition offline_net :: "jsstring \<Rightarrow> 'b fetch_outcome" where
  "offline_net url = Rejected (Error (js ''Failed to fetch''))"

section \<open>The retrieval and summarization engine\<close>

text \<open>
  The engine (the back end behind \<open>/search\<close> and the summary endpoint) is not among the
  sources; only its callers are. The definitions of this section follow the specification.
  Strings are sequences of code units as above.
\<close>

subsection \<open>SearchEngine\<close>

text \<open>
  Modelled from the spec: the descriptive fields of a Chunk that the MetadataStore resolves
  for a chunk id (the store is missing from the sources).
\<close>

record Chunk =
  chunk_paper_id :: jsstring
  chunk_title :: jsstring
  chunk_section :: jsstring
  chunk_text :: jsstring

text \<open>
  Modelled from the spec: a SearchResult of the missing search engine: score, the chunk's
  descriptive fields and the snippet (\<open>None\<close> is null).
\<close>

record Ranked =
  r_score :: rat
  r_chunk_id :: int
  r_paper_id :: jsstring
  r_title :: jsstring
  r_section :: jsstring
  r_snippet :: "jsstring option"

text \<open>
  Modelled from the spec: the two error kinds of the missing \<open>search\<close>.
\<close>

datatype search_error = EmbeddingError | IndexUnavailable

text \<open>
  Modelled from the spec: the bound to which \<open>k\<close> is clamped (the search engine is missing
  from the sources; the specification suggests 100).
\<close>

definition max_k :: nat where
  "max_k = 100"

text \<open>
  Modelled from the spec: one result per resolvable hit (the search engine is missing). An id
  without metadata is skipped; the score is the transformed distance; the snippet is the
  chunk's raw text, or null when that text is empty.
\<close>

definition to_result :: "(rat \<Rightarrow> rat) \<Rightarrow> (int \<Rightarrow> Chunk option) \<Rightarrow> int \<times> rat \<Rightarrow> Ranked option" where
  "to_result transform resolveChunk hit =
     (case resolveChunk (fst hit) of
        None \<Rightarrow> None
      | Some c \<Rightarrow>
          Some \<lparr>r_score = transform (snd hit), r_chunk_id = fst hit,
                r_paper_id = chunk_paper_id c, r_title = chunk_title c,
                r_section = chunk_section c,
                r_snippet = (if chunk_text c = [] then None else Some (chunk_text c))\<rparr>)"

text \<open>
  Modelled from the spec: the ranking order of the missing search engine, score descending
  and ties by ascending chunk id, as a lexicographic sort key.
\<close>

definition rank_key :: "Ranked \<Rightarrow> rat \<times> int" where
  "rank_key r = (- r_score r, r_chunk_id r)"

text \<open>
  Modelled from the spec: the per-document mode of the missing search engine keeps, in
  order, the first (highest-scoring) result of every paper id.
\<close>

fun per_document :: "jsstring list \<Rightarrow> Ranked list \<Rightarrow> Ranked list" where
  "per_document seen [] = []"
| "per_document seen (r # rs) =
     (if r_paper_id r \<in> set seen then per_document seen rs
      else r # per_document (r_paper_id r # seen) rs)"

text \<open>
  Modelled from the spec: \<open>search(query, k)\<close> of the missing search engine. \<open>embedder\<close>,
  \<open>vindex\<close> and \<open>resolveChunk\<close> are the Embedder, the VectorIndex and the MetadataStore
  (\<open>None\<close> is their failure, or NotFound); \<open>transform\<close> turns a distance into a score.
\<close>

definition search ::
  "(jsstring \<Rightarrow> 'v option) \<Rightarrow> ('v \<Rightarrow> nat \<Rightarrow> (int \<times> rat) list option) \<Rightarrow> (int \<Rightarrow> Chunk option)
     \<Rightarrow> (rat \<Rightarrow> rat) \<Rightarrow> bool \<Rightarrow> jsstring \<Rightarrow> nat \<Rightarrow> search_error + Ranked list" where
  "search embedder vindex resolveChunk transform per_doc q k =
     (case embedder q of
        None \<Rightarrow> Inl EmbeddingError
      | Some v \<Rightarrow>
          (case vindex v (min k max_k) of
             None \<Rightarrow> Inl IndexUnavailable
           | Some hits \<Rightarrow>
               let rs = sort_key rank_key (List.map_filter (to_result transform resolveChunk) hits)
               in Inr (if per_doc then per_document [] rs else rs)))"

subsection \<open>SummarizationPipeline and SummaryCache\<close>

text \<open>
  Modelled from the spec: the Document record of the missing document storage; \<open>sections\<close>
  maps a section name to its text.
\<close>

record Document =
  doc_paper_id :: jsstring
  doc_title :: jsstring
  doc_link :: jsstring
  sections :: "(jsstring \<times> jsstring) list"
  illustrations :: "jsstring list"

text \<open>
  Modelled from the spec: the Summary record that the missing pipeline produces.
\<close>

record Summary =
  summary_paper_id :: jsstring
  intro :: jsstring
  key_points :: "jsstring list"
  outro :: jsstring
  plain_text :: jsstring

text \<open>
  Modelled from the spec: the error kinds with which the missing \<open>getSummary\<close> fails.
\<close>

datatype pipeline_error = SourceUnavailable | SummarizationFailed

text \<open>
  Modelled from the spec: the validity invariant of a Summary (the pipeline is missing from
  the sources): the four string fields are non-empty and there are exactly 4 key points.
\<close>

definition valid_summary :: "Summary \<Rightarrow> bool" where
  "valid_summary s \<longleftrightarrow>
     summary_paper_id s \<noteq> [] \<and> intro s \<noteq> [] \<and> length (key_points s) = 4
     \<and> outro s \<noteq> [] \<and> plain_text s \<noteq> []"

text \<open>
  Modelled from the spec: what the missing pipeline consumes from its collaborators: the
  id normalisation, the document storage, the prompt layout within the character budget,
  the corrective instruction of a retry, the strict JSON parser and the extraction of the
  first balanced object.
\<close>

record Collaborators =
  normalize :: "jsstring \<Rightarrow> jsstring"
  loadDocument :: "jsstring \<Rightarrow> Document option"
  layout :: "(jsstring \<times> jsstring) list \<Rightarrow> jsstring"
  corrective :: jsstring
  parse :: "jsstring \<Rightarrow> json option"
  extract_object :: "jsstring \<Rightarrow> jsstring option"

text \<open>
  Modelled from the spec: the section order of PromptBuild in the missing pipeline:
  Abstract, Results, Conclusion, then the remaining sections.
\<close>

definition prioritize :: "(jsstring \<times> jsstring) list \<Rightarrow> (jsstring \<times> jsstring) list" where
  "prioritize secs =
     (let first = [js ''Abstract'', js ''Results'', js ''Conclusion'']
      in List.map_filter (\<lambda>n. map_option (Pair n) (map_of secs n)) first
         @ filter (\<lambda>sec. fst sec \<notin> set first) secs)"

text \<open>
  Modelled from the spec: the strings of a JSON array, if all its entries are strings
  (part of Validate in the missing pipeline).
\<close>

fun strings_of :: "json list \<Rightarrow> jsstring list option" where
  "strings_of [] = Some []"
| "strings_of (JStr s # vs) = map_option ((#) s) (strings_of vs)"
| "strings_of (_ # vs) = None"

text \<open>
  Modelled from the spec: Validate of the missing pipeline on a parsed value: field
  presence, types, non-empty strings and exactly 4 key points.
\<close>

definition validate :: "jsstring \<Rightarrow> json \<Rightarrow> Summary option" where
  "validate pid j =
     (case j of
        JObj kvs \<Rightarrow>
          (case (map_of kvs (js ''intro''), map_of kvs (js ''key_points''),
                 map_of kvs (js ''outro''), map_of kvs (js ''plain_text'')) of
             (Some (JStr i), Some (JArr ks), Some (JStr out), Some (JStr p)) \<Rightarrow>
               (case strings_of ks of
                  None \<Rightarrow> None
                | Some points \<Rightarrow>
                    if pid \<noteq> [] \<and> i \<noteq> [] \<and> length points = 4 \<and> out \<noteq> [] \<and> p \<noteq> []
                    then Some \<lparr>summary_paper_id = pid, intro = i, key_points = points,
                               outro = out, plain_text = p\<rparr>
                    else None)
           | _ \<Rightarrow> None)
      | _ \<Rightarrow> None)"

text \<open>
  Modelled from the spec: Validate of the missing pipeline on the backend's text: a strict
  parse and, when that fails, a parse of the first balanced object found in the text.
\<close>

definition validate_output :: "Collaborators \<Rightarrow> jsstring \<Rightarrow> jsstring \<Rightarrow> Summary option" where
  "validate_output E pid out =
     (case (case parse E out of
              Some j \<Rightarrow> Some j
            | None \<Rightarrow> (case extract_object E out of None \<Rightarrow> None | Some sub \<Rightarrow> parse E sub)) of
        None \<Rightarrow> None
      | Some j \<Rightarrow> validate pid j)"

text \<open>
  Modelled from the spec: the number of additional attempts of the missing pipeline (the
  specification suggests 2).
\<close>

definition max_retries :: nat where
  "max_retries = 2"

text \<open>
  Modelled from the spec: GenerateCall, Validate and Retry of the missing pipeline.
  \<open>backend i p\<close> is the reply of the generative backend to the \<open>i\<close>-th call of this request
  with prompt \<open>p\<close> (\<open>None\<close>: the call failed or timed out). The result lists the prompts
  sent, in order, and the first valid Summary if there was one within \<open>n\<close> attempts.
\<close>

fun attempts ::
  "Collaborators \<Rightarrow> (nat \<Rightarrow> jsstring \<Rightarrow> jsstring option) \<Rightarrow> jsstring \<Rightarrow> jsstring \<Rightarrow> nat \<Rightarrow> nat
     \<Rightarrow> jsstring list \<times> Summary option" where
  "attempts E backend pid prompt i 0 = ([], None)"
| "attempts E backend pid prompt i (Suc n) =
     (let p = (if i = 0 then prompt else prompt @ corrective E)
      in case (case backend i p of None \<Rightarrow> None | Some out \<Rightarrow> validate_output E pid out) of
           Some s \<Rightarrow> ([p], Some s)
         | None \<Rightarrow>
             (case attempts E backend pid prompt (Suc i) n of
                (sent, r) \<Rightarrow> (p # sent, r)))"

text \<open>
  Modelled from the spec: the prompt of the \<open>i\<close>-th GenerateCall of a request in the missing
  pipeline: the built prompt, with the corrective instruction appended on a retry.
\<close>

definition attempt_prompt :: "Collaborators \<Rightarrow> jsstring \<Rightarrow> nat \<Rightarrow> jsstring" where
  "attempt_prompt E prompt i = (if i = 0 then prompt else prompt @ corrective E)"

text \<open>
  Modelled from the spec: the outcome of the \<open>i\<close>-th attempt of the missing pipeline, taken
  alone: the Summary that Validate accepts in the backend's reply, if any. \<open>attempts\<close> is
  related to it by \<open>attempts_Suc\<close>.
\<close>

definition attempt_outcome ::
  "Collaborators \<Rightarrow> (nat \<Rightarrow> jsstring \<Rightarrow> jsstring option) \<Rightarrow> jsstring \<Rightarrow> jsstring \<Rightarrow> nat
     \<Rightarrow> Summary option" where
  "attempt_outcome E backend pid prompt i =
     (case backend i (attempt_prompt E prompt i) of
        None \<Rightarrow> None
      | Some out \<Rightarrow> validate_output E pid out)"

text \<open>
  Modelled from the spec: an entry of the missing SummaryCache: a stored Summary, or an
  unreadable one, which \<open>get\<close> treats as a miss.
\<close>

datatype cache_entry = Stored Summary | Corrupt

type_synonym cache = "jsstring \<Rightarrow> cache_entry option"

text \<open>
  Modelled from the spec: \<open>get\<close> of the missing SummaryCache; \<open>None\<close> is a miss.
\<close>

definition cache_get :: "cache \<Rightarrow> jsstring \<Rightarrow> Summary option" where
  "cache_get c key = (case c key of Some (Stored s) \<Rightarrow> Some s | _ \<Rightarrow> None)"

text \<open>
  Modelled from the spec: \<open>put\<close> of the missing SummaryCache; the last write wins.
\<close>

definition cache_put :: "cache \<Rightarrow> jsstring \<Rightarrow> Summary \<Rightarrow> cache" where
  "cache_put c key s = c(key \<mapsto> Stored s)"

text \<open>
  Modelled from the spec: \<open>getSummary\<close> of the missing pipeline: CacheCheck, PromptBuild,
  the bounded attempts, CacheWrite. The result is the answer, the cache afterwards and
  the prompts sent to the generative backend.
\<close>

definition getSummary ::
  "Collaborators \<Rightarrow> (nat \<Rightarrow> jsstring \<Rightarrow> jsstring option) \<Rightarrow> cache \<Rightarrow> jsstring
     \<Rightarrow> (pipeline_error + Summary) \<times> cache \<times> jsstring list" where
  "getSummary E backend c pid =
     (let key = normalize E pid
      in case cache_get c key of
           Some s \<Rightarrow> (Inr s, c, [])
         | None \<Rightarrow>
             (case loadDocument E key of
                None \<Rightarrow> (Inl SourceUnavailable, c, [])
              | Some doc \<Rightarrow>
                  if sections doc = [] then (Inl SourceUnavailable, c, [])
                  else
                    (case attempts E backend key (layout E (prioritize (sections doc))) 0
                            (Suc max_retries) of
                       (sent, None) \<Rightarrow> (Inl SummarizationFailed, c, sent)
                     | (sent, Some s) \<Rightarrow> (Inr s, cache_put c key s, sent))))"

text \<open>
  Modelled from the spec: the caches the missing engine can be in, for documents that never
  change: the cold cache, the cache after any request, after an entry became unreadable,
  and after an explicit invalidation.
\<close>

inductive reachable :: "Collaborators \<Rightarrow> cache \<Rightarrow> bool" for E :: Collaborators where
  cold: "reachable E Map.empty"
| request: "reachable E c \<Longrightarrow> reachable E (fst (snd (getSummary E backend c pid)))"
| corrupted: "reachable E c \<Longrightarrow> reachable E (c(key \<mapsto> Corrupt))"
| invalidated: "reachable E c \<Longrightarrow> reachable E (c(key := None))"

text \<open>
  Modelled from the spec: the state of the missing SummaryCache that the pipeline maintains:
  every stored Summary is valid and belongs to a document with sections.
\<close>

definition cache_ok :: "Collaborators \<Rightarrow> cache \<Rightarrow> bool" where
  "cache_ok E c \<longleftrightarrow>
     (\<forall>key s. c key = Some (Stored s) \<longrightarrow>
        valid_summary s
        \<and> (\<exists>doc. loadDocument E key = Some doc \<and> sections doc \<noteq> []))"

subsection \<open>Sample data for the engine\<close>

definition sample_document :: Document where
  "sample_document =
     \<lparr>doc_paper_id = js ''PMC1'', doc_title = js ''Roots in orbit'',
      doc_link = js ''https://www.ncbi.nlm.nih.gov/pmc/articles/PMC1/'',
      sections = [(js ''Results'', js ''Roots grew.''), (js ''Abstract'', js ''We grew roots.'')],
      illustrations = []\<rparr>"

definition short_body :: json where
  "short_body =
     JObj [(js ''intro'', JStr (js ''Plants in orbit.'')),
           (js ''key_points'', JArr [JStr (js ''a''), JStr (js ''b''), JStr (js ''c'')]),
           (js ''outro'', JStr (js ''More work is needed.'')),
           (js ''plain_text'', JStr (js ''Plants grow in space.''))]"

definition sample_collaborators :: Collaborators where
  "sample_collaborators =
     \<lparr>normalize = cleanId,
      loadDocument = (\<lambda>key. if key = js ''PMC1'' then Some sample_document else None),
      layout = (\<lambda>secs. concat (map snd secs)),
      corrective = js '' JSON only.'',
      parse = (\<lambda>t. if t = js ''full'' then Some structured_body
                    else if t = js ''short'' then Some short_body else None),
      extract_object = (\<lambda>t. None)\<rparr>"

definition sample_backend :: "nat \<Rightarrow> jsstring \<Rightarrow> jsstring option" where
  "sample_backend i p = (if i = 0 then Some (js ''short'') else Some (js ''full''))"

definition stubborn_backend :: "nat \<Rightarrow> jsstring \<Rightarrow> jsstring option" where
  "stubborn_backend i p = Some (js ''short'')"

definition sample_summary :: Summary where
  "sample_summary =
     \<lparr>summary_paper_id = js ''PMC1'', intro = js ''Plants in orbit.'',
      key_points = [js ''a'', js ''b'', js ''c'', js ''d''],
      outro = js ''More work is needed.'', plain_text = js ''Plants grow in space.''\<rparr>"

definition sample_chunks :: "int \<Rightarrow> Chunk option" where
  "sample_chunks i =
     (if i = 1 then
        Some \<lparr>chunk_paper_id = js ''PMC100'', chunk_title = js ''Bone loss'',
              chunk_section = js ''Results'', chunk_text = js ''Microgravity reduces bone mass.''\<rparr>
      else if i = 5 then
        Some \<lparr>chunk_paper_id = js ''PMC100'', chunk_title = js ''Bone loss'',
              chunk_section = js ''Abstract'', chunk_text = js ''Bone density in orbit.''\<rparr>
      else if i = 2 then
        Some \<lparr>chunk_paper_id = js ''PMC200'', chunk_title = js ''Root growth'',
              chunk_section = js ''Abstract'', chunk_text = []\<rparr>
      else None)"

definition sample_embedder :: "jsstring \<Rightarrow> unit option" where
  "sample_embedder q = Some ()"

definition sample_index :: "unit \<Rightarrow> nat \<Rightarrow> (int \<times> rat) list option" where
  "sample_index v n = Some [(2, 2 / 5), (9, 1 / 5), (5, 1 / 10), (1, 1 / 10)]"

definition reciprocal :: "rat \<Rightarrow> rat" where
  "reciprocal d = 1 / (1 + d)"

definition sample_hits :: "(int \<times> rat) list" where
  "sample_hits = [(2, 2 / 5), (9, 1 / 5), (5, 1 / 10), (1, 1 / 10)]"

section \<open>Properties of the front end\<close>

subsection \<open>Highlighting\<close>

text \<open>
  C9: if the text is empty or the query is empty, \<open>highlightText(text, query)\<close> returns
  the text unchanged.
\<close>

theorem highlightText_empty:
  "text = [] \<or> q = [] \<Longrightarrow> highlightText toLowerCase canon text q = text"
  by (simp add: highlightText_def)

theorem highlightText_empty_witness:
  "(js ''plants grow'' = [] \<or> ([] :: jsstring) = [])
   \<and> highlightText id id (js ''plants grow'') [] = js ''plants grow''"
  using highlightText_empty [of "js ''plants grow''" "[]" id id] by simp

subsection \<open>Snippets\<close>

lemma trim_Nil [simp]: "trim [] = []"
  by (simp add: trim_def)

lemma trim_unchanged:
  assumes "xs \<noteq> []" and "\<not> isWhiteSpace (hd xs)" and "\<not> isWhiteSpace (last xs)"
  shows "trim xs = xs"
proof -
  from assms have d1: "dropWhile isWhiteSpace xs = xs"
    by (simp add: dropWhile_eq_self_iff)
  from assms have d2: "dropWhile isWhiteSpace (rev xs) = rev xs"
    by (simp add: dropWhile_eq_self_iff hd_rev)
  show ?thesis by (simp add: trim_def d1 d2)
qed

lemma renderSnippet_nonempty:
  "snippet r = Some sn \<Longrightarrow> trim sn \<noteq> [] \<Longrightarrow>
   renderSnippet r =
     (if length (trim sn) \<le> 400 then trim sn else take 400 (trim sn) @ js ''...'')"
  unfolding renderSnippet_def Let_def
  by (cases "sn = []") (auto simp: not_le)

lemma length_dots: "length (js ''...'') = 3"
  by (simp add: js_def)

lemma trim_sample: "trim (js ''  ab '') = js ''ab''"
  by (simp add: trim_def js_def isWhiteSpace_def)

text \<open>
  C10: for a result whose trimmed snippet is non-empty, \<open>renderSnippet\<close> returns the trimmed
  snippet when it has at most 400 code units, and otherwise its first 400 code units followed
  by \<open>...\<close>; the result never has more than 403 code units.
\<close>

theorem renderSnippet_truncates:
  assumes "snippet r = Some sn" and "trim sn \<noteq> []"
  shows "renderSnippet r =
           (if length (trim sn) \<le> 400 then trim sn else take 400 (trim sn) @ js ''...'')
         \<and> length (renderSnippet r) \<le> 403"
proof -
  have eq: "renderSnippet r =
     (if length (trim sn) \<le> 400 then trim sn else take 400 (trim sn) @ js ''...'')"
    using assms by (rule renderSnippet_nonempty)
  have "length (if length (trim sn) \<le> 400 then trim sn else take 400 (trim sn) @ js ''...'')
        \<le> 403"
    by (simp add: length_dots)
  with eq show ?thesis by simp
qed

theorem renderSnippet_truncates_witness:
  "snippet sample_result = Some (js ''  ab '') \<and> trim (js ''  ab '') \<noteq> []
   \<and> renderSnippet sample_result = js ''ab''
   \<and> length (renderSnippet sample_result) \<le> 403"
proof -
  have a: "snippet sample_result = Some (js ''  ab '')"
    by (simp add: sample_result_def)
  have c: "trim (js ''  ab '') \<noteq> []"
    unfolding trim_sample by (simp add: js_def)
  show ?thesis
    using renderSnippet_truncates [OF a c] a c trim_sample by (simp add: js_def)
qed

text \<open>
  C2 as stated says that a non-empty snippet is used as it is. A snippet of 401 code units
  is rendered as its first 400 code units followed by \<open>...\<close>.
\<close>

theorem renderSnippet_not_verbatim_counterexample:
  "snippet long_result = Some (replicate 401 120)
   \<and> trim (replicate 401 120) \<noteq> []
   \<and> renderSnippet long_result = replicate 400 120 @ js ''...''
   \<and> renderSnippet long_result \<noteq> replicate 401 120"
proof -
  have a: "snippet long_result = Some (replicate 401 120)"
    by (simp add: long_result_def)
  have t: "trim (replicate 401 120) = replicate 401 120"
    by (rule trim_unchanged) (simp_all add: isWhiteSpace_def)
  have c: "trim (replicate 401 120) \<noteq> []"
    unfolding t by simp
  have r: "renderSnippet long_result = replicate 400 120 @ js ''...''"
    using renderSnippet_nonempty [OF a c] by (simp add: t)
  have "length (renderSnippet long_result) \<noteq> length (replicate 401 (120::nat))"
    unfolding r by (simp add: length_dots)
  then have "renderSnippet long_result \<noteq> replicate 401 120"
    by auto
  with a c r show ?thesis by simp
qed

lemma renderSnippet_label:
  assumes "snippet r = None \<or> (\<exists>sn. snippet r = Some sn \<and> trim sn = [])"
    and "meta r = Some m" and "title m = Some t"
  shows "renderSnippet r =
           t @ (case section m of
                  None \<Rightarrow> []
                | Some sec \<Rightarrow> if sec = [] then [] else js '' ('' @ sec @ js '')'')"
  using assms unfolding renderSnippet_def Let_def by auto

text \<open>
  C2 (amended): for a result with a title whose snippet is absent or empty after trimming,
  the rendered snippet is the title followed by the section name in parentheses when a
  non-empty section is present, and just the title otherwise; for a result whose snippet is
  non-empty after trimming, the trimmed snippet is used, cut to its first 400 code units
  followed by \<open>...\<close> when it is longer.
\<close>

theorem renderSnippet_fallback:
  assumes "meta r = Some m" and "title m = Some t"
  shows "((snippet r = None \<or> (\<exists>sn. snippet r = Some sn \<and> trim sn = [])) \<longrightarrow>
            (\<forall>sec. section m = Some sec \<and> sec \<noteq> [] \<longrightarrow>
                     renderSnippet r = t @ js '' ('' @ sec @ js '')'')
            \<and> (section m = None \<or> section m = Some [] \<longrightarrow> renderSnippet r = t))
         \<and> (\<forall>sn. snippet r = Some sn \<and> trim sn \<noteq> [] \<longrightarrow>
                   renderSnippet r =
                     (if length (trim sn) \<le> 400 then trim sn
                      else take 400 (trim sn) @ js ''...''))"
proof (intro conjI impI allI)
  fix sec
  assume "snippet r = None \<or> (\<exists>sn. snippet r = Some sn \<and> trim sn = [])"
    and "section m = Some sec \<and> sec \<noteq> []"
  then show "renderSnippet r = t @ js '' ('' @ sec @ js '')''"
    using renderSnippet_label [OF _ assms] by simp
next
  assume "snippet r = None \<or> (\<exists>sn. snippet r = Some sn \<and> trim sn = [])"
    and "section m = None \<or> section m = Some []"
  then show "renderSnippet r = t"
    using renderSnippet_label [OF _ assms] by auto
next
  fix sn
  assume "snippet r = Some sn \<and> trim sn \<noteq> []"
  then show "renderSnippet r =
               (if length (trim sn) \<le> 400 then trim sn else take 400 (trim sn) @ js ''...'')"
    using renderSnippet_nonempty by blast
qed

theorem renderSnippet_fallback_witness:
  "renderSnippet (sample_result\<lparr>snippet := Some (js '' '')\<rparr>) = js ''Roots in orbit (Abstract)''
   \<and> renderSnippet (sample_result\<lparr>snippet := None\<rparr>) = js ''Roots in orbit (Abstract)''
   \<and> renderSnippet sample_result = js ''ab''"
proof -
  let ?m = "\<lparr>paper_id = js ''PMC1'', title = Some (js ''Roots in orbit''),
             section = Some (js ''Abstract''), chunk_id = Some 3\<rparr>"
  have blank: "trim (js '' '') = []"
    by (simp add: trim_def js_def isWhiteSpace_def)
  have 1: "renderSnippet (sample_result\<lparr>snippet := Some (js '' '')\<rparr>)
           = js ''Roots in orbit (Abstract)''"
    using renderSnippet_fallback
      [of "sample_result\<lparr>snippet := Some (js '' '')\<rparr>" ?m "js ''Roots in orbit''"] blank
    by (simp add: sample_result_def js_def)
  have 2: "renderSnippet (sample_result\<lparr>snippet := None\<rparr>) = js ''Roots in orbit (Abstract)''"
    using renderSnippet_fallback
      [of "sample_result\<lparr>snippet := None\<rparr>" ?m "js ''Roots in orbit''"]
    by (simp add: sample_result_def js_def)
  have 3: "renderSnippet sample_result = js ''ab''"
    using renderSnippet_fallback [of sample_result ?m "js ''Roots in orbit''"] trim_sample
    by (simp add: sample_result_def js_def)
  from 1 2 3 show ?thesis by simp
qed

subsection \<open>Submitting an empty query\<close>

text \<open>
  C4: when the query is empty after trimming, submitting the search form or the QA form
  fetches nothing and leaves the whole component state unchanged; a request is issued only
  when the trimmed query is non-empty.
\<close>

theorem empty_query_no_request:
  "(trim (query s) = [] \<longrightarrow> handleSearch net s = ([], s))
   \<and> (trim (question qs) = [] \<longrightarrow> handleSubmit qnet qs = ([], qs))
   \<and> (fst (handleSearch net s) \<noteq> [] \<longrightarrow> trim (query s) \<noteq> [])
   \<and> (fst (handleSubmit qnet qs) \<noteq> [] \<longrightarrow> trim (question qs) \<noteq> [])"
  by (auto simp: handleSearch_def handleSubmit_def)

theorem empty_query_no_request_witness:
  "trim (query (initialState\<lparr>query := js ''  ''\<rparr>)) = []
   \<and> handleSearch offline_net (initialState\<lparr>query := js ''  ''\<rparr>)
       = ([], initialState\<lparr>query := js ''  ''\<rparr>)
   \<and> trim (question initialQAState) = []
   \<and> handleSubmit offline_net initialQAState = ([], initialQAState)
   \<and> fst (handleSearch offline_net (initialState\<lparr>query := js ''ab''\<rparr>)) \<noteq> []
   \<and> trim (query (initialState\<lparr>query := js ''ab''\<rparr>)) \<noteq> []
   \<and> fst (handleSubmit offline_net (initialQAState\<lparr>question := js ''ab''\<rparr>)) \<noteq> []
   \<and> trim (question (initialQAState\<lparr>question := js ''ab''\<rparr>)) \<noteq> []"
proof -
  have blank: "trim (js ''  '') = []"
    by (simp add: trim_def js_def isWhiteSpace_def)
  have enc: "encodeURIComponent (js ''ab'') = Inr (js ''ab'')"
    by (simp add: js_def uriUnreserved_def)
  have s: "fst (handleSearch offline_net (initialState\<lparr>query := js ''ab''\<rparr>)) \<noteq> []"
    using enc
    by (simp add: handleSearch_def offline_net_def Let_def trim_def js_def isWhiteSpace_def)
  have q: "fst (handleSubmit offline_net (initialQAState\<lparr>question := js ''ab''\<rparr>)) \<noteq> []"
    using enc
    by (simp add: handleSubmit_def offline_net_def Let_def trim_def js_def isWhiteSpace_def)
  show ?thesis
    using empty_query_no_request
        [of "initialState\<lparr>query := js ''  ''\<rparr>" offline_net initialQAState
            offline_net]
      empty_query_no_request
        [of "initialState\<lparr>query := js ''ab''\<rparr>" offline_net
            "initialQAState\<lparr>question := js ''ab''\<rparr>" offline_net]
      blank s q
    by (simp add: initialQAState_def)
qed

subsection \<open>Paper identifiers\<close>

lemma takeWhile_digits_stop:
  "list_all is_digit ds \<Longrightarrow> post = [] \<or> \<not> is_digit (hd post) \<Longrightarrow>
   takeWhile is_digit (ds @ post) = ds"
  by (induction ds) (auto simp: takeWhile_eq_Nil_iff)

lemma match_here_complete:
  assumes "matches_PMC_pattern m" and "post = [] \<or> \<not> is_digit (hd post)"
  shows "match_here (m @ post) = Some m"
proof -
  from assms(1) obtain p q c d ds where m: "m = p # q # c # d # ds"
    by (cases m rule: matches_PMC_pattern.cases) auto
  with assms(1) have digits: "list_all is_digit (d # ds)" by simp
  have "takeWhile is_digit ((d # ds) @ post) = d # ds"
    using digits assms(2) by (rule takeWhile_digits_stop)
  with assms(1) m show ?thesis by simp
qed

lemma match_here_not_None:
  assumes "matches_PMC_pattern m"
  shows "match_here (m @ post) \<noteq> None"
proof -
  from assms obtain p q c d ds where m: "m = p # q # c # d # ds"
    by (cases m rule: matches_PMC_pattern.cases) auto
  with assms show ?thesis by simp
qed

lemma match_here_sound:
  assumes "match_here s = Some m"
  shows "\<exists>post. s = m @ post \<and> matches_PMC_pattern m \<and> (post = [] \<or> \<not> is_digit (hd post))"
proof -
  from assms obtain p q c rest where s: "s = p # q # c # rest"
    by (cases s rule: match_here.cases) auto
  let ?ds = "takeWhile is_digit rest"
  from assms s have ne: "?ds \<noteq> []" and m: "m = p # q # c # ?ds"
    and letters: "(p = 80 \<or> p = 112) \<and> (q = 77 \<or> q = 109) \<and> (c = 67 \<or> c = 99)"
    by (auto split: if_splits)
  have all: "list_all is_digit ?ds"
    by (simp add: list_all_iff) (meson set_takeWhileD)
  from ne obtain d ds where ds: "?ds = d # ds" by (cases ?ds) auto
  have "matches_PMC_pattern m"
    using all letters unfolding m ds by simp
  moreover have "s = m @ dropWhile is_digit rest"
    unfolding s m by simp
  moreover have "dropWhile is_digit rest = [] \<or> \<not> is_digit (hd (dropWhile is_digit rest))"
    using hd_dropWhile [of is_digit rest] by auto
  ultimately show ?thesis by blast
qed

lemma match_PMC_None_iff:
  "match_PMC s = None \<longleftrightarrow> (\<forall>pre m post. s = pre @ m @ post \<longrightarrow> \<not> matches_PMC_pattern m)"
proof (induction s)
  case Nil
  then show ?case by auto
next
  case (Cons x xs)
  show ?case
  proof (cases "match_here (x # xs)")
    case None
    have "(\<forall>pre m post. x # xs = pre @ m @ post \<longrightarrow> \<not> matches_PMC_pattern m)
          \<longleftrightarrow> (\<forall>pre m post. xs = pre @ m @ post \<longrightarrow> \<not> matches_PMC_pattern m)"
    proof (intro iffI allI impI)
      fix pre m post
      assume a: "\<forall>pre m post. x # xs = pre @ m @ post \<longrightarrow> \<not> matches_PMC_pattern m"
        and "xs = pre @ m @ post"
      then have "x # xs = (x # pre) @ m @ post" by simp
      with a show "\<not> matches_PMC_pattern m" by blast
    next
      fix pre m post
      assume a: "\<forall>pre m post. xs = pre @ m @ post \<longrightarrow> \<not> matches_PMC_pattern m"
        and eq: "x # xs = pre @ m @ post"
      show "\<not> matches_PMC_pattern m"
      proof (cases pre)
        case Nil
        with eq None show ?thesis using match_here_not_None [of m post] by auto
      next
        case (Cons y pre')
        with eq have "xs = pre' @ m @ post" by simp
        with a show ?thesis by blast
      qed
    qed
    with None Cons.IH show ?thesis by simp
  next
    case (Some m)
    from match_here_sound [OF Some] obtain post where
      "x # xs = [] @ m @ post" "matches_PMC_pattern m" by auto
    then have "\<not> (\<forall>pre m post. x # xs = pre @ m @ post \<longrightarrow> \<not> matches_PMC_pattern m)"
      by blast
    with Some show ?thesis by simp
  qed
qed

lemma match_PMC_leftmost:
  assumes "s = pre @ m @ post" and "matches_PMC_pattern m"
    and "post = [] \<or> \<not> is_digit (hd post)"
    and "\<forall>pre' m' post'. s = pre' @ m' @ post' \<and> matches_PMC_pattern m' \<longrightarrow> length pre \<le> length pre'"
  shows "match_PMC s = Some m"
  using assms
proof (induction pre arbitrary: s)
  case Nil
  then have "match_here s = Some m" by (simp add: match_here_complete)
  moreover from Nil have "s \<noteq> []" by (cases m) auto
  ultimately show ?case by (cases s) auto
next
  case (Cons x pre)
  have s: "s = x # (pre @ m @ post)" using Cons.prems(1) by simp
  have "match_here s = None"
  proof (rule ccontr)
    assume "match_here s \<noteq> None"
    then obtain m' where "match_here s = Some m'" by auto
    from match_here_sound [OF this] obtain post' where
      "s = [] @ m' @ post'" "matches_PMC_pattern m'" by auto
    with Cons.prems(4) have "length (x # pre) \<le> length ([]::jsstring)" by blast
    then show False by simp
  qed
  moreover have "match_PMC (pre @ m @ post) = Some m"
  proof (rule Cons.IH [OF refl Cons.prems(2,3)], intro allI impI)
    fix pre' m' post'
    assume "pre @ m @ post = pre' @ m' @ post' \<and> matches_PMC_pattern m'"
    then have "s = (x # pre') @ m' @ post' \<and> matches_PMC_pattern m'" using s by simp
    with Cons.prems(4) have "length (x # pre) \<le> length (x # pre')" by blast
    then show "length pre \<le> length pre'" by simp
  qed
  ultimately show ?case unfolding s by simp
qed

lemma encodeURIComponent_unreserved:
  "list_all uriUnreserved xs \<Longrightarrow> encodeURIComponent xs = Inr xs"
  by (induction xs) simp_all

lemma digit_unreserved: "is_digit d \<Longrightarrow> uriUnreserved d"
  by (simp add: is_digit_def uriUnreserved_def)

lemma digits_unreserved: "list_all is_digit ds \<Longrightarrow> list_all uriUnreserved ds"
  by (induction ds) (simp_all add: digit_unreserved)

lemma PMC_pattern_unreserved:
  assumes "matches_PMC_pattern m"
  shows "list_all uriUnreserved m"
proof -
  from assms obtain p q c d ds where m: "m = p # q # c # d # ds"
    by (cases m rule: matches_PMC_pattern.cases) auto
  from assms have "uriUnreserved p" unfolding m uriUnreserved_def by auto
  moreover from assms have "uriUnreserved q" unfolding m uriUnreserved_def by auto
  moreover from assms have "uriUnreserved c" unfolding m uriUnreserved_def by auto
  moreover from assms have "list_all uriUnreserved (d # ds)"
    unfolding m by (simp add: digit_unreserved digits_unreserved)
  ultimately show ?thesis unfolding m by simp
qed

lemma openPaper_paper_requests:
  "fst (openPaper_paper net cid s) =
     (case encodeURIComponent cid of
        Inl t \<Rightarrow> [] | Inr e \<Rightarrow> [js ''http://127.0.0.1:8000/paper/'' @ e])"
  unfolding openPaper_paper_def Let_def
  by (simp split: sum.splits fetch_outcome.splits)

lemma openPaper_summary_requests:
  "fst (openPaper_summary net cid s) =
     (case encodeURIComponent cid of
        Inl t \<Rightarrow> [] | Inr e \<Rightarrow> [js ''http://127.0.0.1:8000/paper_summarized/'' @ e])"
  unfolding openPaper_summary_def Let_def
  by (simp split: sum.splits fetch_outcome.splits)

lemma openPaper_requests:
  "fst (openPaper net pid s) =
     (case encodeURIComponent (cleanId pid) of
        Inl t \<Rightarrow> []
      | Inr e \<Rightarrow> [js ''http://127.0.0.1:8000/paper/'' @ e,
                  js ''http://127.0.0.1:8000/paper_summarized/'' @ e])"
  unfolding openPaper_def Let_def
  by (simp add: split_beta openPaper_paper_requests openPaper_summary_requests split: sum.splits)

text \<open>
  C3: the id that keys the paper and summary lookups is the first substring of the given id
  that matches \<open>PMC\d+\<close> in either case (leftmost, with all its digits), and the given
  id itself when no substring matches; the article link is built from the same match and
  is \<open>#\<close> when the id is absent or has no match.
\<close>

theorem paper_id_normalisation:
  "(pid = pre @ m @ post \<and> matches_PMC_pattern m \<and> (post = [] \<or> \<not> is_digit (hd post))
    \<and> (\<forall>pre' m' post'. pid = pre' @ m' @ post' \<and> matches_PMC_pattern m'
                         \<longrightarrow> length pre \<le> length pre')
    \<longrightarrow> cleanId pid = m
        \<and> fst (openPaper net pid s) = [js ''http://127.0.0.1:8000/paper/'' @ m,
                                      js ''http://127.0.0.1:8000/paper_summarized/'' @ m]
        \<and> getPaperLink (Some pid) = js ''https://www.ncbi.nlm.nih.gov/pmc/articles/'' @ m @ js ''/'')
   \<and> ((\<forall>pre' m' post'. pid = pre' @ m' @ post' \<longrightarrow> \<not> matches_PMC_pattern m')
      \<longrightarrow> cleanId pid = pid
          \<and> fst (openPaper net pid s) =
              (case encodeURIComponent pid of
                 Inl t \<Rightarrow> []
               | Inr e \<Rightarrow> [js ''http://127.0.0.1:8000/paper/'' @ e,
                           js ''http://127.0.0.1:8000/paper_summarized/'' @ e])
          \<and> getPaperLink (Some pid) = js ''#'')
   \<and> getPaperLink None = js ''#''"
proof (intro conjI impI)
  assume h: "pid = pre @ m @ post \<and> matches_PMC_pattern m \<and> (post = [] \<or> \<not> is_digit (hd post))
    \<and> (\<forall>pre' m' post'. pid = pre' @ m' @ post' \<and> matches_PMC_pattern m'
                         \<longrightarrow> length pre \<le> length pre')"
  then have found: "match_PMC pid = Some m"
    using match_PMC_leftmost [of pid pre m post] by blast
  from h have enc: "encodeURIComponent m = Inr m"
    by (simp add: encodeURIComponent_unreserved PMC_pattern_unreserved)
  from h have "m \<noteq> []" by (cases m) auto
  with h have ne: "pid \<noteq> []" by simp
  show c: "cleanId pid = m"
    by (simp add: cleanId_def found)
  show "fst (openPaper net pid s) = [js ''http://127.0.0.1:8000/paper/'' @ m,
                                      js ''http://127.0.0.1:8000/paper_summarized/'' @ m]"
    by (simp add: openPaper_requests c enc)
  show "getPaperLink (Some pid) = js ''https://www.ncbi.nlm.nih.gov/pmc/articles/'' @ m @ js ''/''"
    by (simp add: getPaperLink_def found ne)
next
  assume "\<forall>pre' m' post'. pid = pre' @ m' @ post' \<longrightarrow> \<not> matches_PMC_pattern m'"
  then have none: "match_PMC pid = None"
    by (simp add: match_PMC_None_iff)
  show c: "cleanId pid = pid"
    by (simp add: cleanId_def none)
  show "fst (openPaper net pid s) =
              (case encodeURIComponent pid of
                 Inl t \<Rightarrow> []
               | Inr e \<Rightarrow> [js ''http://127.0.0.1:8000/paper/'' @ e,
                           js ''http://127.0.0.1:8000/paper_summarized/'' @ e])"
    by (simp add: openPaper_requests c)
  show "getPaperLink (Some pid) = js ''#''"
    by (simp add: getPaperLink_def none)
next
  show "getPaperLink None = js ''#''"
    by (simp add: getPaperLink_def)
qed

theorem paper_id_normalisation_witness:
  "cleanId (js ''pmc12-v2'') = js ''pmc12''
   \<and> fst (openPaper offline_net (js ''pmc12-v2'') initialState)
       = [js ''http://127.0.0.1:8000/paper/pmc12'',
          js ''http://127.0.0.1:8000/paper_summarized/pmc12'']
   \<and> getPaperLink (Some (js ''pmc12-v2'')) = js ''https://www.ncbi.nlm.nih.gov/pmc/articles/pmc12/''
   \<and> cleanId (js ''doi 7'') = js ''doi 7''
   \<and> fst (openPaper offline_net (js ''doi 7'') initialState)
       = [js ''http://127.0.0.1:8000/paper/doi%207'',
          js ''http://127.0.0.1:8000/paper_summarized/doi%207'']
   \<and> getPaperLink (Some (js ''doi 7'')) = js ''#''"
proof -
  have split: "js ''pmc12-v2'' = [] @ js ''pmc12'' @ js ''-v2''"
    by (simp add: js_def)
  have pat: "matches_PMC_pattern (js ''pmc12'')"
    by (simp add: js_def is_digit_def)
  have stop: "js ''-v2'' = [] \<or> \<not> is_digit (hd (js ''-v2''))"
    by (simp add: js_def is_digit_def)
  have first: "\<forall>pre' m' post'. js ''pmc12-v2'' = pre' @ m' @ post' \<and> matches_PMC_pattern m'
                 \<longrightarrow> length ([] :: jsstring) \<le> length pre'"
    by simp
  have "match_PMC (js ''doi 7'') = None"
    by (simp add: js_def)
  then have none: "\<forall>pre' m' post'. js ''doi 7'' = pre' @ m' @ post' \<longrightarrow> \<not> matches_PMC_pattern m'"
    by (simp only: match_PMC_None_iff)
  have enc: "encodeURIComponent (js ''doi 7'') = Inr (js ''doi%207'')"
    by (simp add: js_def uriUnreserved_def utf8_def percent_def hexDigit_def)
  from paper_id_normalisation
         [of "js ''pmc12-v2''" "[]" "js ''pmc12''" "js ''-v2''" offline_net
             initialState]
       split pat stop first
  have 1: "cleanId (js ''pmc12-v2'') = js ''pmc12''
     \<and> fst (openPaper offline_net (js ''pmc12-v2'') initialState)
         = [js ''http://127.0.0.1:8000/paper/'' @ js ''pmc12'',
            js ''http://127.0.0.1:8000/paper_summarized/'' @ js ''pmc12'']
     \<and> getPaperLink (Some (js ''pmc12-v2''))
         = js ''https://www.ncbi.nlm.nih.gov/pmc/articles/'' @ js ''pmc12'' @ js ''/''"
    by blast
  from paper_id_normalisation
         [of "js ''doi 7''" "[]" "[]" "[]" offline_net initialState]
       none enc
  have 2: "cleanId (js ''doi 7'') = js ''doi 7''
     \<and> fst (openPaper offline_net (js ''doi 7'') initialState)
         = [js ''http://127.0.0.1:8000/paper/'' @ js ''doi%207'',
            js ''http://127.0.0.1:8000/paper_summarized/'' @ js ''doi%207'']
     \<and> getPaperLink (Some (js ''doi 7'')) = js ''#''"
    by simp
  from 1 2 show ?thesis by (simp add: js_def)
qed


subsection \<open>The summary the client consumes\<close>

lemmas openPaper_eval =
  openPaper_def openPaper_paper_def openPaper_summary_def cleanId_def initialState_def
  structured_body_def text_body_def structured_net_def text_net_def missing_net_def
  js_def uriUnreserved_def is_digit_def ok_def get_prop_def
  truthy_def message_def Let_def

text \<open>
  C1 as stated says that the client receives the structured object or an error. When the
  endpoint answers with exactly that object, the client ends with no summary and no error.
\<close>

theorem summary_shape_counterexample:
  "is_structured_summary structured_body
   \<and> summaryError (snd (openPaper structured_net (js ''PMC1'')
                          initialState)) = None
   \<and> \<not> is_structured_summary
         (paperSummary (snd (openPaper structured_net (js ''PMC1'')
                               initialState)))"
  by (simp add: openPaper_eval is_structured_summary_def)

lemma openPaper_paper_keeps_summary:
  "paperSummary (snd (openPaper_paper net cid s)) = paperSummary s
   \<and> summaryError (snd (openPaper_paper net cid s)) = summaryError s"
  unfolding openPaper_paper_def Let_def
  by (simp split: sum.splits fetch_outcome.splits)

lemma openPaper_summary_value:
  assumes "summaryError s = None"
  shows "(paperSummary (snd (openPaper_summary net cid s)) \<noteq> JNull \<longrightarrow>
           summaryError (snd (openPaper_summary net cid s)) = None
           \<and> truthy (paperSummary (snd (openPaper_summary net cid s)))
           \<and> (\<exists>e status kvs.
                 encodeURIComponent cid = Inr e
                 \<and> net (js ''http://127.0.0.1:8000/paper_summarized/'' @ e)
                     = Resolved status (Inr (JObj kvs))
                 \<and> ok status
                 \<and> map_of kvs (js ''summary'')
                     = Some (paperSummary (snd (openPaper_summary net cid s)))))
         \<and> (summaryError (snd (openPaper_summary net cid s)) \<noteq> None \<longrightarrow>
              paperSummary (snd (openPaper_summary net cid s)) = JNull)"
  using assms unfolding openPaper_summary_def Let_def get_prop_def
  by (auto split: sum.splits fetch_outcome.splits json.splits option.splits)

lemma openPaper_summary_truthy:
  assumes "encodeURIComponent cid = Inr e"
    and "net (js ''http://127.0.0.1:8000/paper_summarized/'' @ e)
           = Resolved status (Inr (JObj kvs))"
    and "ok status" and "map_of kvs (js ''summary'') = Some v" and "truthy v"
  shows "paperSummary (snd (openPaper_summary net cid s)) = v
         \<and> summaryError (snd (openPaper_summary net cid s)) = summaryError s"
  using assms unfolding openPaper_summary_def Let_def get_prop_def by simp

lemma openPaper_snd:
  "snd (openPaper net pid s) =
     snd (openPaper_summary net (cleanId pid)
            (snd (openPaper_paper net (cleanId pid)
                    (s\<lparr>paperLoading := True, paperError := None, selectedPaper := JNull,
                       showModal := True, paperSummary := JNull, summaryLoading := True,
                       summaryError := None\<rparr>))))"
  unfolding openPaper_def Let_def by (simp add: split_beta)

lemma openPaper_summary_error_iff:
  assumes "summaryError s = None"
  shows "summaryError (snd (openPaper_summary net cid s)) = None \<longleftrightarrow>
         (\<exists>e status j.
            encodeURIComponent cid = Inr e
            \<and> net (js ''http://127.0.0.1:8000/paper_summarized/'' @ e) = Resolved status (Inr j)
            \<and> ok status \<and> j \<noteq> JNull)"
  using assms unfolding openPaper_summary_def Let_def get_prop_def
  by (auto split: sum.splits fetch_outcome.splits json.splits)

lemma openPaper_summary_status:
  assumes "encodeURIComponent cid = Inr e"
    and "net (js ''http://127.0.0.1:8000/paper_summarized/'' @ e) = Resolved status body"
    and "\<not> ok status"
  shows "summaryError (snd (openPaper_summary net cid s)) =
           Some (if status = 404 then js ''Summary not found''
                 else js ''Summary API error: '' @ show_nat status)"
  using assms unfolding openPaper_summary_def Let_def
  by (simp add: message_def)

lemma openPaper_summary_thrown:
  assumes "encodeURIComponent cid = Inl t
           \<or> (\<exists>e. encodeURIComponent cid = Inr e
                \<and> (net (js ''http://127.0.0.1:8000/paper_summarized/'' @ e) = Rejected t
                   \<or> (\<exists>status. ok status
                         \<and> (net (js ''http://127.0.0.1:8000/paper_summarized/'' @ e)
                               = Resolved status (Inl t)
                            \<or> (\<exists>j. net (js ''http://127.0.0.1:8000/paper_summarized/'' @ e)
                                      = Resolved status (Inr j)
                                    \<and> get_prop j (js ''summary'') = Inl t)))))"
  shows "summaryError (snd (openPaper_summary net cid s)) =
           Some (message (js ''Failed to load summary'') t)"
  using assms unfolding openPaper_summary_def Let_def
  by auto

lemma openPaper_summary_absent:
  assumes "encodeURIComponent cid = Inr e"
    and "net (js ''http://127.0.0.1:8000/paper_summarized/'' @ e) = Resolved status (Inr j)"
    and "ok status" and "j \<noteq> JNull"
    and "\<forall>v. get_prop j (js ''summary'') = Inr (Some v) \<longrightarrow> \<not> truthy v"
  shows "paperSummary (snd (openPaper_summary net cid s)) = JNull
         \<and> summaryError (snd (openPaper_summary net cid s)) = summaryError s"
  using assms unfolding openPaper_summary_def Let_def get_prop_def
  by (auto split: json.splits option.splits)

text \<open>
  C1 (amended): after \<open>openPaper\<close> the client holds either an error message (the id could
  not be encoded, the request was rejected, the status is not 2xx, or the body is unreadable
  or null) together with a null summary, or no error together with the \<open>summary\<close> property
  of the body of the 2xx response when that property is truthy, and a null summary when it
  is absent or falsy.
\<close>

theorem openPaper_summary_consumed:
  "(paperSummary (snd (openPaper net pid s)) \<noteq> JNull \<longrightarrow>
      summaryError (snd (openPaper net pid s)) = None
      \<and> truthy (paperSummary (snd (openPaper net pid s)))
      \<and> (\<exists>e status kvs.
            encodeURIComponent (cleanId pid) = Inr e
            \<and> net (js ''http://127.0.0.1:8000/paper_summarized/'' @ e)
                = Resolved status (Inr (JObj kvs))
            \<and> ok status
            \<and> map_of kvs (js ''summary'') = Some (paperSummary (snd (openPaper net pid s)))))
   \<and> (summaryError (snd (openPaper net pid s)) \<noteq> None \<longrightarrow>
        paperSummary (snd (openPaper net pid s)) = JNull)
   \<and> (\<forall>e status kvs v.
         encodeURIComponent (cleanId pid) = Inr e
         \<and> net (js ''http://127.0.0.1:8000/paper_summarized/'' @ e)
             = Resolved status (Inr (JObj kvs))
         \<and> ok status \<and> map_of kvs (js ''summary'') = Some v \<and> truthy v
         \<longrightarrow> paperSummary (snd (openPaper net pid s)) = v
             \<and> summaryError (snd (openPaper net pid s)) = None)
   \<and> (summaryError (snd (openPaper net pid s)) = None \<longleftrightarrow>
        (\<exists>e status j.
           encodeURIComponent (cleanId pid) = Inr e
           \<and> net (js ''http://127.0.0.1:8000/paper_summarized/'' @ e) = Resolved status (Inr j)
           \<and> ok status \<and> j \<noteq> JNull))
   \<and> (\<forall>e status body.
         encodeURIComponent (cleanId pid) = Inr e
         \<and> net (js ''http://127.0.0.1:8000/paper_summarized/'' @ e) = Resolved status body
         \<and> \<not> ok status
         \<longrightarrow> summaryError (snd (openPaper net pid s)) =
               Some (if status = 404 then js ''Summary not found''
                     else js ''Summary API error: '' @ show_nat status))
   \<and> (\<forall>t.
         (encodeURIComponent (cleanId pid) = Inl t
          \<or> (\<exists>e. encodeURIComponent (cleanId pid) = Inr e
               \<and> (net (js ''http://127.0.0.1:8000/paper_summarized/'' @ e) = Rejected t
                  \<or> (\<exists>status. ok status
                        \<and> (net (js ''http://127.0.0.1:8000/paper_summarized/'' @ e)
                              = Resolved status (Inl t)
                           \<or> (\<exists>j. net (js ''http://127.0.0.1:8000/paper_summarized/'' @ e)
                                     = Resolved status (Inr j)
                                   \<and> get_prop j (js ''summary'') = Inl t))))))
         \<longrightarrow> summaryError (snd (openPaper net pid s)) =
               Some (message (js ''Failed to load summary'') t))
   \<and> (\<forall>e status j.
         encodeURIComponent (cleanId pid) = Inr e
         \<and> net (js ''http://127.0.0.1:8000/paper_summarized/'' @ e) = Resolved status (Inr j)
         \<and> ok status \<and> j \<noteq> JNull
         \<and> (\<forall>v. get_prop j (js ''summary'') = Inr (Some v) \<longrightarrow> \<not> truthy v)
         \<longrightarrow> paperSummary (snd (openPaper net pid s)) = JNull
             \<and> summaryError (snd (openPaper net pid s)) = None)"
proof -
  let ?s0 = "s\<lparr>paperLoading := True, paperError := None, selectedPaper := JNull,
               showModal := True, paperSummary := JNull, summaryLoading := True,
               summaryError := None\<rparr>"
  let ?s1 = "snd (openPaper_paper net (cleanId pid) ?s0)"
  have "summaryError ?s1 = summaryError ?s0"
    using openPaper_paper_keeps_summary [of net "cleanId pid" ?s0] by blast
  then have none: "summaryError ?s1 = None" by simp
  have bwd: "(paperSummary (snd (openPaper net pid s)) \<noteq> JNull \<longrightarrow>
      summaryError (snd (openPaper net pid s)) = None
      \<and> truthy (paperSummary (snd (openPaper net pid s)))
      \<and> (\<exists>e status kvs.
            encodeURIComponent (cleanId pid) = Inr e
            \<and> net (js ''http://127.0.0.1:8000/paper_summarized/'' @ e)
                = Resolved status (Inr (JObj kvs))
            \<and> ok status
            \<and> map_of kvs (js ''summary'') = Some (paperSummary (snd (openPaper net pid s)))))
   \<and> (summaryError (snd (openPaper net pid s)) \<noteq> None \<longrightarrow>
        paperSummary (snd (openPaper net pid s)) = JNull)"
    using openPaper_summary_value [OF none, of net "cleanId pid"]
    unfolding openPaper_snd .
  have fwd: "paperSummary (snd (openPaper net pid s)) = v
               \<and> summaryError (snd (openPaper net pid s)) = None"
    if "encodeURIComponent (cleanId pid) = Inr e
        \<and> net (js ''http://127.0.0.1:8000/paper_summarized/'' @ e)
            = Resolved status (Inr (JObj kvs))
        \<and> ok status \<and> map_of kvs (js ''summary'') = Some v \<and> truthy v"
    for e status kvs v
    using that openPaper_summary_truthy [of "cleanId pid" e net status kvs v ?s1] none
    unfolding openPaper_snd by simp
  have err: "summaryError (snd (openPaper net pid s)) = None \<longleftrightarrow>
        (\<exists>e status j.
           encodeURIComponent (cleanId pid) = Inr e
           \<and> net (js ''http://127.0.0.1:8000/paper_summarized/'' @ e) = Resolved status (Inr j)
           \<and> ok status \<and> j \<noteq> JNull)"
    using openPaper_summary_error_iff [OF none, of net "cleanId pid"]
    unfolding openPaper_snd .
  have status: "summaryError (snd (openPaper net pid s)) =
               Some (if status = 404 then js ''Summary not found''
                     else js ''Summary API error: '' @ show_nat status)"
    if "encodeURIComponent (cleanId pid) = Inr e
        \<and> net (js ''http://127.0.0.1:8000/paper_summarized/'' @ e) = Resolved status body
        \<and> \<not> ok status"
    for e status body
    using that openPaper_summary_status [of "cleanId pid" e net status body ?s1]
    unfolding openPaper_snd by simp
  have thrown: "summaryError (snd (openPaper net pid s)) =
               Some (message (js ''Failed to load summary'') t)"
    if "encodeURIComponent (cleanId pid) = Inl t
          \<or> (\<exists>e. encodeURIComponent (cleanId pid) = Inr e
               \<and> (net (js ''http://127.0.0.1:8000/paper_summarized/'' @ e) = Rejected t
                  \<or> (\<exists>status. ok status
                        \<and> (net (js ''http://127.0.0.1:8000/paper_summarized/'' @ e)
                              = Resolved status (Inl t)
                           \<or> (\<exists>j. net (js ''http://127.0.0.1:8000/paper_summarized/'' @ e)
                                     = Resolved status (Inr j)
                                   \<and> get_prop j (js ''summary'') = Inl t)))))"
    for t
    using openPaper_summary_thrown [OF that, of ?s1]
    unfolding openPaper_snd .
  have absent: "paperSummary (snd (openPaper net pid s)) = JNull
             \<and> summaryError (snd (openPaper net pid s)) = None"
    if "encodeURIComponent (cleanId pid) = Inr e
         \<and> net (js ''http://127.0.0.1:8000/paper_summarized/'' @ e) = Resolved status (Inr j)
         \<and> ok status \<and> j \<noteq> JNull
         \<and> (\<forall>v. get_prop j (js ''summary'') = Inr (Some v) \<longrightarrow> \<not> truthy v)"
    for e status j
    using that openPaper_summary_absent [of "cleanId pid" e net status j ?s1] none
    unfolding openPaper_snd by simp
  have f3: "\<forall>e status kvs v.
         encodeURIComponent (cleanId pid) = Inr e
         \<and> net (js ''http://127.0.0.1:8000/paper_summarized/'' @ e)
             = Resolved status (Inr (JObj kvs))
         \<and> ok status \<and> map_of kvs (js ''summary'') = Some v \<and> truthy v
         \<longrightarrow> paperSummary (snd (openPaper net pid s)) = v
             \<and> summaryError (snd (openPaper net pid s)) = None"
    using fwd by blast
  have f5: "\<forall>e status body.
         encodeURIComponent (cleanId pid) = Inr e
         \<and> net (js ''http://127.0.0.1:8000/paper_summarized/'' @ e) = Resolved status body
         \<and> \<not> ok status
         \<longrightarrow> summaryError (snd (openPaper net pid s)) =
               Some (if status = 404 then js ''Summary not found''
                     else js ''Summary API error: '' @ show_nat status)"
    using status by blast
  have f6: "\<forall>t.
         (encodeURIComponent (cleanId pid) = Inl t
          \<or> (\<exists>e. encodeURIComponent (cleanId pid) = Inr e
               \<and> (net (js ''http://127.0.0.1:8000/paper_summarized/'' @ e) = Rejected t
                  \<or> (\<exists>status. ok status
                        \<and> (net (js ''http://127.0.0.1:8000/paper_summarized/'' @ e)
                              = Resolved status (Inl t)
                           \<or> (\<exists>j. net (js ''http://127.0.0.1:8000/paper_summarized/'' @ e)
                                     = Resolved status (Inr j)
                                   \<and> get_prop j (js ''summary'') = Inl t))))))
         \<longrightarrow> summaryError (snd (openPaper net pid s)) =
               Some (message (js ''Failed to load summary'') t)"
    using thrown by (intro allI impI)
  have f7: "\<forall>e status j.
         encodeURIComponent (cleanId pid) = Inr e
         \<and> net (js ''http://127.0.0.1:8000/paper_summarized/'' @ e) = Resolved status (Inr j)
         \<and> ok status \<and> j \<noteq> JNull
         \<and> (\<forall>v. get_prop j (js ''summary'') = Inr (Some v) \<longrightarrow> \<not> truthy v)
         \<longrightarrow> paperSummary (snd (openPaper net pid s)) = JNull
             \<and> summaryError (snd (openPaper net pid s)) = None"
    using absent by (intro allI impI)
  from bwd f3 err f5 f6 f7 show ?thesis
    by (intro conjI) (erule conjunct1, erule conjunct2, assumption+)
qed

theorem openPaper_summary_consumed_witness:
  "paperSummary (snd (openPaper text_net (js ''PMC1'') initialState))
     = JStr (js ''Plants grow.'')
   \<and> summaryError (snd (openPaper text_net (js ''PMC1'')
                           initialState)) = None
   \<and> truthy (JStr (js ''Plants grow.''))
   \<and> \<not> ok 404
   \<and> summaryError (snd (openPaper missing_net (js ''PMC1'') initialState))
       = Some (js ''Summary not found'')
   \<and> paperSummary (snd (openPaper missing_net (js ''PMC1'') initialState))
       = JNull
   \<and> summaryError (snd (openPaper offline_net (js ''PMC1'') initialState))
       = Some (js ''Failed to fetch'')
   \<and> paperSummary (snd (openPaper structured_net (js ''PMC1'') initialState)) = JNull
   \<and> summaryError (snd (openPaper structured_net (js ''PMC1'') initialState)) = None"
proof -
  have v: "paperSummary (snd (openPaper text_net (js ''PMC1'')
                                initialState)) = JStr (js ''Plants grow.'')"
    by (simp add: openPaper_eval)
  have enc: "encodeURIComponent (cleanId (js ''PMC1'')) = Inr (js ''PMC1'')"
    by (simp add: cleanId_def js_def is_digit_def uriUnreserved_def)
  have bad: "\<not> ok 404"
    by (simp add: ok_def)
  from openPaper_summary_consumed [of missing_net "js ''PMC1''" initialState]
  have "\<forall>e status body.
         encodeURIComponent (cleanId (js ''PMC1'')) = Inr e
         \<and> missing_net (js ''http://127.0.0.1:8000/paper_summarized/'' @ e) = Resolved status body
         \<and> \<not> ok status
         \<longrightarrow> summaryError (snd (openPaper missing_net (js ''PMC1'') initialState)) =
               Some (if status = 404 then js ''Summary not found''
                     else js ''Summary API error: '' @ show_nat status)"
    by blast
  with enc bad have e: "summaryError (snd (openPaper missing_net (js ''PMC1'') initialState))
                        = Some (js ''Summary not found'')"
    by (simp add: missing_net_def)
  from openPaper_summary_consumed [of offline_net "js ''PMC1''" initialState]
  have "\<forall>t.
         (encodeURIComponent (cleanId (js ''PMC1'')) = Inl t
          \<or> (\<exists>e. encodeURIComponent (cleanId (js ''PMC1'')) = Inr e
               \<and> ((offline_net :: jsstring \<Rightarrow> json fetch_outcome)
                     (js ''http://127.0.0.1:8000/paper_summarized/'' @ e) = Rejected t
                  \<or> (\<exists>status. ok status
                        \<and> ((offline_net :: jsstring \<Rightarrow> json fetch_outcome)
                     (js ''http://127.0.0.1:8000/paper_summarized/'' @ e)
                              = Resolved status (Inl t)
                           \<or> (\<exists>j. (offline_net :: jsstring \<Rightarrow> json fetch_outcome)
                     (js ''http://127.0.0.1:8000/paper_summarized/'' @ e)
                                     = Resolved status (Inr j)
                                   \<and> get_prop j (js ''summary'') = Inl t))))))
         \<longrightarrow> summaryError (snd (openPaper offline_net (js ''PMC1'') initialState)) =
               Some (message (js ''Failed to load summary'') t)"
    by blast
  with enc have o: "summaryError (snd (openPaper offline_net (js ''PMC1'') initialState))
                    = Some (js ''Failed to fetch'')"
    by (simp add: offline_net_def message_def)
  have n: "paperSummary (snd (openPaper structured_net (js ''PMC1'') initialState)) = JNull
           \<and> summaryError (snd (openPaper structured_net (js ''PMC1'') initialState)) = None"
    by (simp add: openPaper_eval)
  from openPaper_summary_consumed [of text_net "js ''PMC1''" initialState]
  have "paperSummary (snd (openPaper text_net (js ''PMC1'') initialState)) \<noteq> JNull \<longrightarrow>
          summaryError (snd (openPaper text_net (js ''PMC1'') initialState)) = None
          \<and> truthy (paperSummary (snd (openPaper text_net (js ''PMC1'') initialState)))"
    by blast
  with v have t: "summaryError (snd (openPaper text_net (js ''PMC1'') initialState)) = None
                  \<and> truthy (JStr (js ''Plants grow.''))"
    by simp
  from v t bad e o n show ?thesis
    using openPaper_summary_consumed [of missing_net "js ''PMC1''" initialState]
    by blast
qed

section \<open>Properties of the engine\<close>

subsection \<open>Ranking\<close>

lemma map_filter_ids:
  "map r_chunk_id (List.map_filter (to_result transform resolveChunk) hits)
   = map fst (filter (\<lambda>h. resolveChunk (fst h) \<noteq> None) hits)"
  by (induction hits) (auto simp: to_result_def split: option.splits)

lemma length_map_filter_le: "length (List.map_filter f xs) \<le> length xs"
  by (induction xs) (auto split: option.splits)

lemma set_per_document: "set (per_document seen rs) \<subseteq> set rs"
  by (induction seen rs rule: per_document.induct) auto

lemma length_per_document: "length (per_document seen rs) \<le> length rs"
  by (induction seen rs rule: per_document.induct) auto

lemma sorted_wrt_per_document:
  "sorted_wrt P rs \<Longrightarrow> sorted_wrt P (per_document seen rs)"
proof (induction seen rs rule: per_document.induct)
  case (1 seen)
  then show ?case by simp
next
  case (2 seen r rs)
  then show ?case using set_per_document [of "r_paper_id r # seen" rs] by auto
qed

lemma distinct_ids_per_document:
  "distinct (map r_chunk_id rs) \<Longrightarrow> distinct (map r_chunk_id (per_document seen rs))"
proof (induction seen rs rule: per_document.induct)
  case (1 seen)
  then show ?case by simp
next
  case (2 seen r rs)
  then show ?case using set_per_document [of "r_paper_id r # seen" rs] by auto
qed

lemma distinct_ids_sort:
  "distinct (map r_chunk_id (sort_key rank_key rs)) = distinct (map r_chunk_id rs)"
  by (simp add: distinct_map)

lemma ranked_by_score:
  "sorted_wrt (\<lambda>a b. r_score b \<le> r_score a) (sort_key rank_key rs)"
proof -
  have "sorted (map rank_key (sort_key rank_key rs))" by (rule sorted_sort_key)
  then have "sorted_wrt (\<lambda>a b. rank_key a \<le> rank_key b) (sort_key rank_key rs)"
    by (simp add: sorted_wrt_map)
  then show ?thesis
    by (rule sorted_wrt_mono_rel [rotated]) (auto simp: rank_key_def less_eq_prod_def)
qed

lemma sorted_wrt_conj:
  "sorted_wrt P xs \<Longrightarrow> sorted_wrt Q xs \<Longrightarrow> sorted_wrt (\<lambda>a b. P a b \<and> Q a b) xs"
  by (induction xs) auto

lemma distinct_map_sorted_wrt:
  "distinct (map f xs) \<Longrightarrow> sorted_wrt (\<lambda>a b. f a \<noteq> f b) xs"
  by (induction xs) auto

lemma ties_by_chunk_id:
  assumes "distinct (map r_chunk_id rs)"
  shows "sorted_wrt (\<lambda>a b. r_score a = r_score b \<longrightarrow> r_chunk_id a < r_chunk_id b)
           (sort_key rank_key rs)"
proof -
  let ?xs = "sort_key rank_key rs"
  have "sorted (map rank_key ?xs)" by (rule sorted_sort_key)
  then have le: "sorted_wrt (\<lambda>a b. rank_key a \<le> rank_key b) ?xs"
    by (simp add: sorted_wrt_map)
  from assms have "distinct (map r_chunk_id ?xs)" by (simp add: distinct_ids_sort)
  then have ne: "sorted_wrt (\<lambda>a b. r_chunk_id a \<noteq> r_chunk_id b) ?xs"
    by (rule distinct_map_sorted_wrt)
  from sorted_wrt_conj [OF le ne] show ?thesis
    by (rule sorted_wrt_mono_rel [rotated]) (auto simp: rank_key_def less_eq_prod_def)
qed

text \<open>
  C5: \<open>search(q, k)\<close> returns at most \<open>k\<close> results, sorted by non-increasing score, with no
  chunk id twice, and results of equal score are in ascending order of chunk id. The
  VectorIndex is taken to answer a request for \<open>n\<close> neighbours with at most \<open>n\<close> hits whose
  resolvable chunk ids are distinct.
\<close>

theorem search_ranked:
  assumes "embedder q = Some v" and "vindex v (min k max_k) = Some hits"
    and "length hits \<le> min k max_k"
    and "distinct (map fst (filter (\<lambda>h. resolveChunk (fst h) \<noteq> None) hits))"
  shows "\<exists>rs. search embedder vindex resolveChunk transform per_doc q k = Inr rs
           \<and> length rs \<le> k
           \<and> sorted_wrt (\<lambda>a b. r_score b \<le> r_score a) rs
           \<and> distinct (map r_chunk_id rs)
           \<and> sorted_wrt (\<lambda>a b. r_score a = r_score b \<longrightarrow> r_chunk_id a < r_chunk_id b) rs"
proof -
  let ?found = "List.map_filter (to_result transform resolveChunk) hits"
  let ?ranked = "sort_key rank_key ?found"
  let ?rs = "if per_doc then per_document [] ?ranked else ?ranked"
  have res: "search embedder vindex resolveChunk transform per_doc q k = Inr ?rs"
    using assms(1,2) by (simp add: search_def Let_def)
  have "length ?ranked \<le> length hits"
    using length_map_filter_le [of "to_result transform resolveChunk" hits] by simp
  with assms(3) have "length ?ranked \<le> k" by simp
  then have len: "length ?rs \<le> k"
    using length_per_document [of "[]" ?ranked] by auto
  have ids: "distinct (map r_chunk_id ?found)"
    using assms(4) by (simp add: map_filter_ids)
  then have "distinct (map r_chunk_id ?ranked)"
    by (simp only: distinct_ids_sort)
  then have dist: "distinct (map r_chunk_id ?rs)"
    by (simp add: distinct_ids_per_document)
  have sc: "sorted_wrt (\<lambda>a b. r_score b \<le> r_score a) ?rs"
    using ranked_by_score [of ?found] by (simp add: sorted_wrt_per_document)
  have ties: "sorted_wrt (\<lambda>a b. r_score a = r_score b \<longrightarrow> r_chunk_id a < r_chunk_id b) ?rs"
    using ties_by_chunk_id [OF ids] by (simp add: sorted_wrt_per_document)
  from res len sc dist ties show ?thesis by blast
qed

lemma sample_search:
  "search sample_embedder sample_index sample_chunks reciprocal False
          (js ''microgravity'') 5
   = Inr [\<lparr>r_score = 10 / 11, r_chunk_id = 1, r_paper_id = js ''PMC100'',
            r_title = js ''Bone loss'', r_section = js ''Results'',
            r_snippet = Some (js ''Microgravity reduces bone mass.'')\<rparr>,
          \<lparr>r_score = 10 / 11, r_chunk_id = 5, r_paper_id = js ''PMC100'',
            r_title = js ''Bone loss'', r_section = js ''Abstract'',
            r_snippet = Some (js ''Bone density in orbit.'')\<rparr>,
          \<lparr>r_score = 5 / 7, r_chunk_id = 2, r_paper_id = js ''PMC200'',
            r_title = js ''Root growth'', r_section = js ''Abstract'', r_snippet = None\<rparr>]"
  by (simp add: search_def sample_embedder_def sample_index_def sample_chunks_def
        reciprocal_def to_result_def rank_key_def max_k_def js_def)

theorem search_ranked_witness:
  "length (projr (search sample_embedder sample_index sample_chunks
                    reciprocal False (js ''microgravity'') 5)) \<le> 5
   \<and> map r_chunk_id (projr (search sample_embedder sample_index sample_chunks
                               reciprocal False (js ''microgravity'') 5)) = [1, 5, 2]
   \<and> distinct (map r_chunk_id
        (projr (search sample_embedder sample_index sample_chunks
                  reciprocal False (js ''microgravity'') 5)))"
proof -
  have len: "length sample_hits \<le> min 5 max_k"
    by (simp add: sample_hits_def max_k_def)
  have dist: "distinct (map fst (filter (\<lambda>h. sample_chunks (fst h) \<noteq> None) sample_hits))"
    by (simp add: sample_hits_def sample_chunks_def)
  have e: "sample_embedder (js ''microgravity'') = Some ()"
    by (simp add: sample_embedder_def)
  have i: "sample_index () (min 5 max_k) = Some sample_hits"
    by (simp add: sample_index_def sample_hits_def)
  from search_ranked [of sample_embedder "js ''microgravity''" "()" sample_index 5 sample_hits
                        sample_chunks reciprocal False, OF e i len dist]
  show ?thesis
    by (auto simp: sample_search)
qed

subsection \<open>Summaries\<close>

lemma validate_valid: "validate pid j = Some s \<Longrightarrow> valid_summary s"
  unfolding validate_def valid_summary_def
  by (auto split: json.splits option.splits if_splits)

lemma validate_output_valid: "validate_output E pid out = Some s \<Longrightarrow> valid_summary s"
  unfolding validate_output_def
  by (auto split: option.splits dest: validate_valid)

lemma attempts_valid:
  "attempts E backend pid prompt i n = (sent, Some s) \<Longrightarrow> valid_summary s"
proof (induction n arbitrary: i sent)
  case 0
  then show ?case by simp
next
  case (Suc n)
  then show ?case
    by (auto simp: Let_def split: option.splits prod.splits dest: validate_output_valid)
qed


lemma cache_ok_empty: "cache_ok E Map.empty"
  by (simp add: cache_ok_def)

lemma cache_ok_getSummary:
  assumes "cache_ok E c"
  shows "cache_ok E (fst (snd (getSummary E backend c pid)))"
  using assms unfolding getSummary_def Let_def cache_put_def cache_ok_def
  by (auto simp del: attempts.simps split: option.splits prod.splits dest: attempts_valid)

lemma reachable_cache_ok: "reachable E c \<Longrightarrow> cache_ok E c"
proof (induction rule: reachable.induct)
  case cold
  show ?case by (rule cache_ok_empty)
next
  case (request c backend pid)
  then show ?case by (simp add: cache_ok_getSummary)
next
  case (corrupted c key)
  then show ?case by (simp add: cache_ok_def)
next
  case (invalidated c key)
  then show ?case by (simp add: cache_ok_def)
qed












lemmas pipeline_eval =
  getSummary_def cache_get_def cache_put_def sample_collaborators_def sample_backend_def
  stubborn_backend_def
  sample_document_def sample_summary_def structured_body_def short_body_def
  validate_output_def validate_def prioritize_def max_retries_def attempt_outcome_def
  attempt_prompt_def
  cleanId_def is_digit_def js_def Let_def

lemma sample_repaired:
  "getSummary sample_collaborators sample_backend Map.empty (js ''PMC1'')
   = (Inr sample_summary, [js ''PMC1'' \<mapsto> Stored sample_summary],
      [js ''We grew roots.Roots grew.'', js ''We grew roots.Roots grew. JSON only.''])"
  by (simp add: pipeline_eval numeral_2_eq_2)




text \<open>
  C8: when no document, or a document without sections, is resolvable for the paper id,
  \<open>getSummary\<close> fails with SourceUnavailable, sends nothing to the generative backend and
  leaves the cache as it was.
\<close>

theorem no_source_no_generation:
  assumes "reachable E c"
    and "loadDocument E (normalize E pid) = None
         \<or> (\<exists>doc. loadDocument E (normalize E pid) = Some doc \<and> sections doc = [])"
  shows "getSummary E backend c pid = (Inl SourceUnavailable, c, [])"
proof -
  from assms(1) have ok: "cache_ok E c" by (rule reachable_cache_ok)
  have "cache_get c (normalize E pid) = None"
  proof (cases "cache_get c (normalize E pid)")
    case None
    then show ?thesis .
  next
    case (Some s)
    then have "c (normalize E pid) = Some (Stored s)"
      by (auto simp: cache_get_def split: option.splits cache_entry.splits)
    with ok have "\<exists>doc. loadDocument E (normalize E pid) = Some doc \<and> sections doc \<noteq> []"
      by (simp add: cache_ok_def)
    with assms(2) show ?thesis by auto
  qed
  with assms(2) show ?thesis
    unfolding getSummary_def Let_def by auto
qed

theorem no_source_no_generation_witness:
  "reachable sample_collaborators [js ''PMC1'' \<mapsto> Stored sample_summary]
   \<and> loadDocument sample_collaborators
        (normalize sample_collaborators (js ''PMC_NONEXISTENT'')) = None
   \<and> getSummary sample_collaborators sample_backend [js ''PMC1'' \<mapsto> Stored sample_summary]
        (js ''PMC_NONEXISTENT'')
       = (Inl SourceUnavailable, [js ''PMC1'' \<mapsto> Stored sample_summary], [])"
proof -
  have r: "reachable sample_collaborators [js ''PMC1'' \<mapsto> Stored sample_summary]"
    using reachable.request [OF reachable.cold, of sample_collaborators sample_backend
                               "js ''PMC1''"]
    by (simp add: sample_repaired)
  have n: "loadDocument sample_collaborators
             (normalize sample_collaborators (js ''PMC_NONEXISTENT'')) = None"
    by (simp add: sample_collaborators_def cleanId_def js_def is_digit_def)
  from no_source_no_generation [OF r disjI1 [OF n], of sample_backend] r n
  show ?thesis by simp
qed

end
